theory Spec2Isabelle
  imports Main "HOL-Library.AList"
begin

section \<open>Clarity values and declared ABI types\<close>

text \<open>
  Modelled from the spec: the values of \<^verbatim>\<open>clarity.ts\<close>, a file missing from the sources.
  The variants are those of the spec's data model; they are the cases of \<^verbatim>\<open>ClarityType\<close>
  that \<^verbatim>\<open>matchType\<close> switches on, with the fields it reads (\<^verbatim>\<open>cv.buffer\<close>, \<^verbatim>\<open>cv.value\<close>,
  \<^verbatim>\<open>cv.list\<close>, \<^verbatim>\<open>cv.data\<close>). Integers are big numbers, a buffer is its sequence of bytes
  (each a number below 256), a principal is given by its address string (and contract
  name), and the \<^verbatim>\<open>data\<close> object of a tuple is an association list read with \<open>map_of\<close>.
\<close>

type_synonym byte = nat

datatype ClarityValue =
    BoolTrue
  | BoolFalse
  | IntCV int
  | UIntCV int
  | BufferCV "byte list"
  | OptionalNone
  | OptionalSome ClarityValue
  | ResponseOk ClarityValue
  | ResponseErr ClarityValue
  | PrincipalStandard string
  | PrincipalContract string string
  | ListCV "ClarityValue list"
  | TupleCV "(string \<times> ClarityValue) list"

text \<open>
  \<^verbatim>\<open>ClarityAbiType\<close>: one of the five primitive strings, or an object with exactly one
  of the keys \<^verbatim>\<open>buffer\<close>, \<^verbatim>\<open>response\<close>, \<^verbatim>\<open>optional\<close>, \<^verbatim>\<open>tuple\<close>, \<^verbatim>\<open>list\<close>. Declared lengths are
  JSON numbers, here integers. A tuple type is an array of \<^verbatim>\<open>{name, type}\<close> entries.
\<close>

datatype ClarityAbiType =
    UInt128T
  | Int128T
  | BoolT
  | PrincipalT
  | NoneT
  | BufferT int
  | ResponseT ClarityAbiType ClarityAbiType
  | OptionalT ClarityAbiType
  | TupleT "(string \<times> ClarityAbiType) list"
  | ListT ClarityAbiType int

datatype ClarityAbiTypeId =
    ClarityAbiTypeUInt128
  | ClarityAbiTypeInt128
  | ClarityAbiTypeBool
  | ClarityAbiTypePrincipal
  | ClarityAbiTypeNone
  | ClarityAbiTypeBuffer
  | ClarityAbiTypeResponse
  | ClarityAbiTypeOptional
  | ClarityAbiTypeTuple
  | ClarityAbiTypeList

text \<open>The numeric value of each member of the enum \<^verbatim>\<open>ClarityAbiTypeId\<close>.\<close>

fun typeIdNumber :: "ClarityAbiTypeId \<Rightarrow> nat" where
  "typeIdNumber ClarityAbiTypeUInt128 = 1"
| "typeIdNumber ClarityAbiTypeInt128 = 2"
| "typeIdNumber ClarityAbiTypeBool = 3"
| "typeIdNumber ClarityAbiTypePrincipal = 4"
| "typeIdNumber ClarityAbiTypeNone = 5"
| "typeIdNumber ClarityAbiTypeBuffer = 6"
| "typeIdNumber ClarityAbiTypeResponse = 7"
| "typeIdNumber ClarityAbiTypeOptional = 8"
| "typeIdNumber ClarityAbiTypeTuple = 9"
| "typeIdNumber ClarityAbiTypeList = 10"

record ClarityAbiTypeUnion =
  union_id :: ClarityAbiTypeId
  union_type :: ClarityAbiType

text \<open>
  \<^verbatim>\<open>getTypeUnion\<close>. Its two \<^verbatim>\<open>throw\<close> branches (an unknown primitive string, an object
  with none of the five keys) are excluded by the type \<^verbatim>\<open>ClarityAbiType\<close>.
\<close>

fun getTypeUnion :: "ClarityAbiType \<Rightarrow> ClarityAbiTypeUnion" where
  "getTypeUnion UInt128T = \<lparr>union_id = ClarityAbiTypeUInt128, union_type = UInt128T\<rparr>"
| "getTypeUnion Int128T = \<lparr>union_id = ClarityAbiTypeInt128, union_type = Int128T\<rparr>"
| "getTypeUnion BoolT = \<lparr>union_id = ClarityAbiTypeBool, union_type = BoolT\<rparr>"
| "getTypeUnion PrincipalT = \<lparr>union_id = ClarityAbiTypePrincipal, union_type = PrincipalT\<rparr>"
| "getTypeUnion NoneT = \<lparr>union_id = ClarityAbiTypeNone, union_type = NoneT\<rparr>"
| "getTypeUnion (BufferT n) = \<lparr>union_id = ClarityAbiTypeBuffer, union_type = BufferT n\<rparr>"
| "getTypeUnion (ResponseT ok err) =
     \<lparr>union_id = ClarityAbiTypeResponse, union_type = ResponseT ok err\<rparr>"
| "getTypeUnion (OptionalT t) = \<lparr>union_id = ClarityAbiTypeOptional, union_type = OptionalT t\<rparr>"
| "getTypeUnion (TupleT fs) = \<lparr>union_id = ClarityAbiTypeTuple, union_type = TupleT fs\<rparr>"
| "getTypeUnion (ListT t n) = \<lparr>union_id = ClarityAbiTypeList, union_type = ListT t n\<rparr>"

section \<open>matchType\<close>

text \<open>
  \<^verbatim>\<open>matchType(cv, abiType)\<close> switches on \<^verbatim>\<open>cv.type\<close> and compares with the id of the declared
  type. \<open>matchTuple\<close> is the \<^verbatim>\<open>for\<close> loop of the tuple case over the declared entries: it
  works on a copy of \<^verbatim>\<open>cv.data\<close> (\<^verbatim>\<open>_.cloneDeep\<close>), reads \<^verbatim>\<open>tuple[key]\<close>, returns false when
  the key is missing or its value does not match, and otherwise deletes the key from the
  copy (\<^verbatim>\<open>delete tuple[key]\<close>) before the next entry.
\<close>

function matchType :: "ClarityValue \<Rightarrow> ClarityAbiType \<Rightarrow> bool"
  and matchTuple :: "(string \<times> ClarityValue) list \<Rightarrow> (string \<times> ClarityAbiType) list \<Rightarrow> bool"
where
  "matchType BoolTrue abiType = (union_id (getTypeUnion abiType) = ClarityAbiTypeBool)"
| "matchType BoolFalse abiType = (union_id (getTypeUnion abiType) = ClarityAbiTypeBool)"
| "matchType (IntCV i) abiType = (union_id (getTypeUnion abiType) = ClarityAbiTypeInt128)"
| "matchType (UIntCV u) abiType = (union_id (getTypeUnion abiType) = ClarityAbiTypeUInt128)"
| "matchType (BufferCV buffer) abiType =
     (case abiType of
        BufferT len \<Rightarrow> len = int (length buffer)
      | _ \<Rightarrow> False)"
| "matchType OptionalNone abiType =
     (union_id (getTypeUnion abiType) = ClarityAbiTypeNone
      \<or> union_id (getTypeUnion abiType) = ClarityAbiTypeOptional)"
| "matchType (OptionalSome v) abiType =
     (case abiType of
        OptionalT t \<Rightarrow> matchType v t
      | _ \<Rightarrow> False)"
| "matchType (ResponseErr v) abiType =
     (case abiType of
        ResponseT ok err \<Rightarrow> matchType v err
      | _ \<Rightarrow> False)"
| "matchType (ResponseOk v) abiType =
     (case abiType of
        ResponseT ok err \<Rightarrow> matchType v ok
      | _ \<Rightarrow> False)"
| "matchType (PrincipalContract a n) abiType =
     (union_id (getTypeUnion abiType) = ClarityAbiTypePrincipal)"
| "matchType (PrincipalStandard a) abiType =
     (union_id (getTypeUnion abiType) = ClarityAbiTypePrincipal)"
| "matchType (ListCV l) abiType =
     (case abiType of
        ListT t len \<Rightarrow> len = int (length l) \<and> list_all (\<lambda>val. matchType val t) l
      | _ \<Rightarrow> False)"
| "matchType (TupleCV data) abiType =
     (case abiType of
        TupleT entries \<Rightarrow> matchTuple data entries
      | _ \<Rightarrow> False)"
| "matchTuple tuple [] = True"
| "matchTuple tuple (abiTupleEntry # rest) =
     (case map_of tuple (fst abiTupleEntry) of
        Some val \<Rightarrow>
          if \<not> matchType val (snd abiTupleEntry) then False
          else matchTuple (AList.delete (fst abiTupleEntry) tuple) rest
      | None \<Rightarrow> False)"
  by pat_completeness auto
termination
  by (relation "measure (\<lambda>x. case x of
        Inl (cv, t) \<Rightarrow> 2 * size t
      | Inr (tuple, entries) \<Rightarrow> 2 * size_list (size_prod (\<lambda>_. 0) size) entries + 1)") auto

section \<open>Strings\<close>

text \<open>The decimal digits of a natural number.\<close>

fun natToString :: "nat \<Rightarrow> string" where
  "natToString n =
     (if n < 10 then [''0123456789'' ! n]
      else natToString (n div 10) @ [''0123456789'' ! (n mod 10)])"

declare natToString.simps [simp del]

text \<open>\<^verbatim>\<open>Array.prototype.join\<close>.\<close>

fun join :: "string \<Rightarrow> string list \<Rightarrow> string" where
  "join sep [] = []"
| "join sep [x] = x"
| "join sep (x # y # ys) = x @ sep @ join sep (y # ys)"

section \<open>Contract ABIs and validateContractCall\<close>

datatype Access = access_private | access_public | access_read_only

record ClarityAbiArg =
  arg_name :: string
  arg_type :: ClarityAbiType

record ClarityAbiFunction =
  fn_name :: string
  fn_access :: Access
  fn_args :: "ClarityAbiArg list"
  fn_outputs :: ClarityAbiType

datatype VariableAccess = access_variable | access_constant

record ClarityAbiVariable =
  var_name :: string
  var_access :: VariableAccess
  var_type :: ClarityAbiType

record ClarityAbiMap =
  map_name :: string
  map_key :: "ClarityAbiArg list"
  map_value :: "ClarityAbiArg list"

record ClarityAbiTypeNonFungibleToken =
  nft_name :: string
  nft_type :: ClarityAbiType

record ClarityAbi =
  abi_functions :: "ClarityAbiFunction list"
  abi_variables :: "ClarityAbiVariable list"
  abi_maps :: "ClarityAbiMap list"
  abi_fungible_tokens :: "string list"
  abi_non_fungible_tokens :: "ClarityAbiTypeNonFungibleToken list"

text \<open>
  Modelled from the spec: the contract-call payload of \<^verbatim>\<open>payload.ts\<close>, a file missing from
  the sources. Its fields are those of the spec's data model, which are the arguments of
  \<^verbatim>\<open>createContractCallPayload\<close>; the code reads \<^verbatim>\<open>functionName.content\<close> and
  \<^verbatim>\<open>functionArgs\<close>. \<open>functionName\<close> is the \<^verbatim>\<open>content\<close> of the length-prefixed string.
\<close>

record ContractCallPayload =
  contractAddress :: string
  contractName :: string
  functionName :: string
  functionArgs :: "ClarityValue list"

text \<open>
  Every \<^verbatim>\<open>throw\<close> of the module is a value of \<open>error\<close>. The source throws plain
  \<^verbatim>\<open>Error\<close> objects (and \<^verbatim>\<open>NotImplementedError\<close>) that differ in their message only; each
  constructor stands for one \<^verbatim>\<open>throw\<close> site and carries what the message interpolates,
  and \<open>errorMessage\<close> is the message. \<open>ArgumentTypeMismatch\<close> carries the loop index
  \<^verbatim>\<open>i\<close>; the message prints \<^verbatim>\<open>i + 1\<close>. The bool message quotes the string as
  \<^verbatim>\<open>JSON.stringify\<close> does (its escapes of special characters are left out). \<open>External\<close>
  is a failure of a function outside this module.
\<close>

datatype error =
    ArgumentCountMismatch nat nat
  | ArgumentTypeMismatch string nat string string
  | FunctionNotFound string
  | AmbiguousAbi string
  | NotImplementedError ClarityAbiTypeId
  | UnexpectedBoolValue string
  | NotTokenTransfer
  | External string

fun errorMessage :: "error \<Rightarrow> string" where
  "errorMessage (ArgumentCountMismatch expected received) =
     ''Clarity function expects '' @ natToString expected @ '' argument(s) but received ''
       @ natToString received"
| "errorMessage (ArgumentTypeMismatch fname i expected actual) =
     ''Clarity function `'' @ fname @ ''` expects argument '' @ natToString (i + 1)
       @ '' to be of type '' @ expected @ '', not '' @ actual"
| "errorMessage (FunctionNotFound fname) =
     ''ABI doesn't contain a function with the name '' @ fname"
| "errorMessage (AmbiguousAbi fname) =
     ''Malformed ABI. Contains multiple functions with the name '' @ fname"
| "errorMessage (NotImplementedError tid) =
     ''Unsupported encoding for Clarity type: '' @ natToString (typeIdNumber tid)"
| "errorMessage (UnexpectedBoolValue val) =
     ''Unexpected Clarity bool value: '' @ [CHR 0x22] @ val @ [CHR 0x22]"
| "errorMessage NotTokenTransfer = ''Transaction is not a token transfer''"
| "errorMessage (External msg) = msg"

text \<open>
  Two things the type strings take from outside this module. A number inside a template
  literal is printed with its decimal digits when it is an integer below \<open>10 ^ 21\<close> in
  absolute value; beyond that JavaScript switches to exponent notation, which is the
  parameter \<open>numberExponential\<close>. \<open>cvTypeStringOther\<close> is \<^verbatim>\<open>getCVTypeString\<close> of
  \<^verbatim>\<open>clarity.ts\<close>, a file missing from the sources, on every value the spec says nothing
  about; a call that throws is a result \<open>Inl\<close>.
\<close>

record helpers =
  numberExponential :: "int \<Rightarrow> string"
  cvTypeStringOther :: "ClarityValue \<Rightarrow> error + string"

definition numberToString :: "helpers \<Rightarrow> int \<Rightarrow> string" where
  "numberToString h i =
     (if abs i < 10 ^ 21 then
        (if i < 0 then ''-'' @ natToString (nat (- i)) else natToString (nat i))
      else numberExponential h i)"

fun getTypeString :: "helpers \<Rightarrow> ClarityAbiType \<Rightarrow> string" where
  "getTypeString h Int128T = ''int''"
| "getTypeString h UInt128T = ''uint''"
| "getTypeString h BoolT = ''bool''"
| "getTypeString h PrincipalT = ''principal''"
| "getTypeString h NoneT = ''none''"
| "getTypeString h (BufferT len) = ''(buff '' @ numberToString h len @ '')''"
| "getTypeString h (ResponseT ok err) =
     ''(response '' @ getTypeString h ok @ '' '' @ getTypeString h err @ '')''"
| "getTypeString h (OptionalT t) = ''(optional '' @ getTypeString h t @ '')''"
| "getTypeString h (TupleT entries) =
     ''(tuple ''
       @ join '' '' (map (\<lambda>t. ''('' @ fst t @ '' '' @ getTypeString h (snd t) @ '')'') entries)
       @ '')''"
| "getTypeString h (ListT t len) =
     ''(list '' @ numberToString h len @ '' '' @ getTypeString h t @ '')''"

text \<open>
  Modelled from the spec: \<^verbatim>\<open>getCVTypeString\<close> of \<^verbatim>\<open>clarity.ts\<close>, a file missing from the
  sources. The spec calls its result the actual type string of a value and gives
  \<^verbatim>\<open>"int"\<close> for an \<^verbatim>\<open>Int128\<close> value. On every other value the result, or the error thrown,
  is that of the parameter.
\<close>

definition getCVTypeString :: "helpers \<Rightarrow> ClarityValue \<Rightarrow> error + string" where
  "getCVTypeString h cv = (case cv of IntCV i \<Rightarrow> Inr ''int'' | _ \<Rightarrow> cvTypeStringOther h cv)"

text \<open>
  The \<^verbatim>\<open>for\<close> loop of \<^verbatim>\<open>validateContractCall\<close>, from index \<open>i\<close> on. The message of the
  error is a template literal: \<^verbatim>\<open>getTypeString\<close> and \<^verbatim>\<open>getCVTypeString\<close> are evaluated
  before the error exists, so an error thrown by \<^verbatim>\<open>getCVTypeString\<close> is the one that leaves
  the function.
\<close>

function validateArgs ::
  "helpers \<Rightarrow> ContractCallPayload \<Rightarrow> ClarityAbiArg list \<Rightarrow> nat \<Rightarrow> error + bool" where
  "validateArgs h payload abiArgs i =
     (if i < length (functionArgs payload) then
        let payloadArg = functionArgs payload ! i;
            abiArg = abiArgs ! i
        in if \<not> matchType payloadArg (arg_type abiArg) then
             (case getCVTypeString h payloadArg of
                Inl err \<Rightarrow> Inl err
              | Inr actual \<Rightarrow>
                  Inl (ArgumentTypeMismatch (functionName payload) i
                         (getTypeString h (arg_type abiArg)) actual))
           else validateArgs h payload abiArgs (i + 1)
      else Inr True)"
  by pat_completeness auto
termination
  by (relation "measure (\<lambda>(h, payload, abiArgs, i). length (functionArgs payload) - i)") auto

declare validateArgs.simps [simp del]

definition validateContractCall ::
  "helpers \<Rightarrow> ContractCallPayload \<Rightarrow> ClarityAbi \<Rightarrow> error + bool" where
  "validateContractCall h payload abi =
     (let filtered = filter (\<lambda>fn. fn_name fn = functionName payload) (abi_functions abi) in
      if length filtered = 1 then
        let abiFunc = filtered ! 0;
            abiArgs = fn_args abiFunc
        in if length (functionArgs payload) \<noteq> length abiArgs then
             Inl (ArgumentCountMismatch (length abiArgs) (length (functionArgs payload)))
           else validateArgs h payload abiArgs 0
      else if length filtered = 0 then Inl (FunctionNotFound (functionName payload))
      else Inl (AmbiguousAbi (functionName payload)))"

section \<open>encodeClarityValue\<close>

text \<open>
  The constructors of \<^verbatim>\<open>clarity.ts\<close> that \<^verbatim>\<open>encodeClarityValue\<close> calls with the input string
  are missing from the sources; they are parameters, and a call that throws is a result
  \<open>Inl\<close>. \<open>utf8\<close> is \<^verbatim>\<open>Buffer.from(val, 'utf8')\<close>. The constructors without an
  argument (\<^verbatim>\<open>noneCV\<close>, \<^verbatim>\<open>falseCV\<close>, \<^verbatim>\<open>trueCV\<close>) are the values themselves.
\<close>

record ClarityConstructors =
  uintCV :: "string \<Rightarrow> error + ClarityValue"
  intCV :: "string \<Rightarrow> error + ClarityValue"
  contractPrincipalCV :: "string \<Rightarrow> string \<Rightarrow> error + ClarityValue"
  standardPrincipalCV :: "string \<Rightarrow> error + ClarityValue"
  bufferCV :: "byte list \<Rightarrow> error + ClarityValue"
  utf8 :: "string \<Rightarrow> byte list"

text \<open>\<^verbatim>\<open>String.prototype.split\<close> at a one-character separator.\<close>

fun split :: "char \<Rightarrow> string \<Rightarrow> string list" where
  "split sep [] = [[]]"
| "split sep (c # cs) =
     (if c = sep then [] # split sep cs
      else (case split sep cs of
              p # ps \<Rightarrow> (c # p) # ps
            | [] \<Rightarrow> [[c]]))"

text \<open>
  The first argument is either a \<^verbatim>\<open>ClarityAbiTypeUnion\<close> (it has an \<^verbatim>\<open>id\<close>) or a
  \<^verbatim>\<open>ClarityAbiType\<close>, which \<^verbatim>\<open>getTypeUnion\<close> turns into one. The \<^verbatim>\<open>default\<close> branch of the
  \<^verbatim>\<open>switch\<close> is excluded by the enum.
\<close>

definition inputUnion :: "ClarityAbiTypeUnion + ClarityAbiType \<Rightarrow> ClarityAbiTypeUnion" where
  "inputUnion input = (case input of Inl u \<Rightarrow> u | Inr t \<Rightarrow> getTypeUnion t)"

definition encodeClarityValue ::
  "ClarityConstructors \<Rightarrow> ClarityAbiTypeUnion + ClarityAbiType \<Rightarrow> string \<Rightarrow> error + ClarityValue"
where
  "encodeClarityValue cvs input val =
     (let union = inputUnion input in
      case union_id union of
        ClarityAbiTypeUInt128 \<Rightarrow> uintCV cvs val
      | ClarityAbiTypeInt128 \<Rightarrow> intCV cvs val
      | ClarityAbiTypeBool \<Rightarrow>
          if val = ''false'' \<or> val = ''0'' then Inr BoolFalse
          else if val = ''true'' \<or> val = ''1'' then Inr BoolTrue
          else Inl (UnexpectedBoolValue val)
      | ClarityAbiTypePrincipal \<Rightarrow>
          if CHR ''.'' \<in> set val then
            let parts = split CHR ''.'' val
            in contractPrincipalCV cvs (parts ! 0) (parts ! 1)
          else standardPrincipalCV cvs val
      | ClarityAbiTypeNone \<Rightarrow> Inr OptionalNone
      | ClarityAbiTypeBuffer \<Rightarrow> bufferCV cvs (utf8 cvs val)
      | ClarityAbiTypeResponse \<Rightarrow> Inl (NotImplementedError (union_id union))
      | ClarityAbiTypeOptional \<Rightarrow> Inl (NotImplementedError (union_id union))
      | ClarityAbiTypeTuple \<Rightarrow> Inl (NotImplementedError (union_id union))
      | ClarityAbiTypeList \<Rightarrow> Inl (NotImplementedError (union_id union)))"

section \<open>Transaction builders\<close>

text \<open>
  Modelled from the spec: the enums of \<^verbatim>\<open>constants.ts\<close> and the post conditions of
  \<^verbatim>\<open>postcondition.ts\<close>, files missing from the sources. The builders use the members
  \<^verbatim>\<open>PayloadType.TokenTransfer\<close>, \<^verbatim>\<open>AnchorMode.Any\<close>, \<^verbatim>\<open>PostConditionMode.Deny\<close> and
  \<^verbatim>\<open>AddressHashMode.SerializeP2PKH\<close>, and only copy the post conditions they are given.
\<close>

datatype PayloadType = TokenTransfer | SmartContract | ContractCall

datatype AnchorMode = OnChainOnly | OffChainOnly | Any

datatype PostConditionMode = Allow | Deny

datatype TransactionVersion = Mainnet | Testnet

datatype AddressHashMode = SerializeP2PKH | SerializeP2SH | SerializeP2WPKH | SerializeP2WSH

type_synonym ChainID = nat

datatype PostConditionPrincipal = StandardPrincipal string | ContractPrincipal string string

datatype PostCondition =
    STXPostCondition PostConditionPrincipal nat int
  | FungiblePostCondition PostConditionPrincipal nat int string
  | NonFungiblePostCondition PostConditionPrincipal nat string string

text \<open>
  Modelled from the spec: the payloads of \<^verbatim>\<open>payload.ts\<close>, a file missing from the sources.
  The spec's payload is a tagged union of a token transfer (recipient, amount, memo), a
  contract deploy (name, code body) and a contract call (address, contract name, function
  name, arguments); \<open>payloadType\<close> is its tag, the field the estimators read.
\<close>

datatype Payload =
    TokenTransferPayload "string + ClarityValue" int string
  | SmartContractPayload string string
  | ContractCallPayload ContractCallPayload

fun payloadType :: "Payload \<Rightarrow> PayloadType" where
  "payloadType (TokenTransferPayload recipient amount memo') = TokenTransfer"
| "payloadType (SmartContractPayload name codeBody) = SmartContract"
| "payloadType (ContractCallPayload call) = ContractCall"

text \<open>
  Modelled from the spec: a single-signature spending condition (hash mode, signer, nonce,
  fee, signature; the signature is empty until signed), the standard authorization that
  wraps it, and the transaction envelope, whose constructor stores its arguments.
  \<^verbatim>\<open>setFee\<close> writes the fee of the spending condition.
\<close>

record SingleSigSpendingCondition =
  sc_hashMode :: AddressHashMode
  sc_signer :: string
  sc_nonce :: int
  sc_fee :: int
  sc_signature :: string

datatype Authorization = StandardAuthorization SingleSigSpendingCondition

record StacksTransaction =
  tx_version :: TransactionVersion
  tx_chainId :: ChainID
  tx_auth :: Authorization
  tx_anchorMode :: AnchorMode
  tx_payload :: Payload
  tx_postConditionMode :: PostConditionMode
  tx_postConditions :: "PostCondition list"

definition newSingleSigSpendingCondition ::
  "AddressHashMode \<Rightarrow> string \<Rightarrow> int \<Rightarrow> int \<Rightarrow> SingleSigSpendingCondition" where
  "newSingleSigSpendingCondition hashMode pubKey nonce' fee' =
     \<lparr>sc_hashMode = hashMode, sc_signer = pubKey, sc_nonce = nonce', sc_fee = fee',
      sc_signature = []\<rparr>"

definition newStacksTransaction ::
  "TransactionVersion \<Rightarrow> Authorization \<Rightarrow> Payload \<Rightarrow> PostCondition list \<Rightarrow> PostConditionMode
   \<Rightarrow> AnchorMode \<Rightarrow> ChainID \<Rightarrow> StacksTransaction" where
  "newStacksTransaction version' auth payload postConditions' postConditionMode' anchorMode'
     chainId' =
     \<lparr>tx_version = version', tx_chainId = chainId', tx_auth = auth,
      tx_anchorMode = anchorMode', tx_payload = payload,
      tx_postConditionMode = postConditionMode', tx_postConditions = postConditions'\<rparr>"

fun setFee :: "StacksTransaction \<Rightarrow> int \<Rightarrow> StacksTransaction" where
  "setFee transaction amount =
     (case tx_auth transaction of
        StandardAuthorization sc \<Rightarrow>
          transaction\<lparr>tx_auth := StandardAuthorization (sc\<lparr>sc_fee := amount\<rparr>)\<rparr>)"

fun setSignature :: "StacksTransaction \<Rightarrow> string \<Rightarrow> StacksTransaction" where
  "setSignature transaction sig =
     (case tx_auth transaction of
        StandardAuthorization sc \<Rightarrow>
          transaction\<lparr>tx_auth := StandardAuthorization (sc\<lparr>sc_signature := sig\<rparr>)\<rparr>)"

text \<open>
  What the builders take from outside this module: constants of \<^verbatim>\<open>constants.ts\<close>; the
  network (\<open>fetchPrivate url\<close> is the text of the response to a GET of \<open>url\<close>, or a
  failure); big-number parsing; the length of the serialized transaction; the arguments
  that the payload constructors reject (an address that is not a c32 address, a name or
  memo that is too long: \<open>Some\<close> is the error thrown); the key functions of \<^verbatim>\<open>keys.ts\<close>; and
  the signature that \<^verbatim>\<open>TransactionSigner.signOrigin\<close> computes and stores in the
  authorization. A call that throws or rejects is a result \<open>Inl\<close>.
\<close>

record env =
  DEFAULT_CORE_NODE_API_URL :: string
  DEFAULT_TRANSACTION_VERSION :: TransactionVersion
  DEFAULT_CHAIN_ID :: ChainID
  fetchPrivate :: "string \<Rightarrow> error + string"
  BigNum :: "string \<Rightarrow> int"
  byteLength :: "StacksTransaction \<Rightarrow> nat"
  rejectTokenTransfer :: "string + ClarityValue \<Rightarrow> int \<Rightarrow> string \<Rightarrow> error option"
  rejectSmartContract :: "string \<Rightarrow> string \<Rightarrow> error option"
  rejectContractCall :: "string \<Rightarrow> string \<Rightarrow> string \<Rightarrow> ClarityValue list \<Rightarrow> error option"
  createStacksPrivateKey :: "string \<Rightarrow> error + string"
  getPublicKey :: "string \<Rightarrow> error + string"
  publicKeyToString :: "string \<Rightarrow> string"
  signOrigin :: "StacksTransaction \<Rightarrow> string \<Rightarrow> error + string"

text \<open>
  Modelled from the spec: the payload constructors \<^verbatim>\<open>createTokenTransferPayload\<close>,
  \<^verbatim>\<open>createSmartContractPayload\<close> and \<^verbatim>\<open>createContractCallPayload\<close> of \<^verbatim>\<open>payload.ts\<close>. Each
  throws on the arguments it rejects and otherwise returns the payload of its kind that
  holds its arguments.
\<close>

definition createTokenTransferPayload ::
  "env \<Rightarrow> string + ClarityValue \<Rightarrow> int \<Rightarrow> string \<Rightarrow> error + Payload" where
  "createTokenTransferPayload e recipient amount memo' =
     (case rejectTokenTransfer e recipient amount memo' of
        Some err \<Rightarrow> Inl err
      | None \<Rightarrow> Inr (TokenTransferPayload recipient amount memo'))"

definition createSmartContractPayload :: "env \<Rightarrow> string \<Rightarrow> string \<Rightarrow> error + Payload" where
  "createSmartContractPayload e contractName' codeBody =
     (case rejectSmartContract e contractName' codeBody of
        Some err \<Rightarrow> Inl err
      | None \<Rightarrow> Inr (SmartContractPayload contractName' codeBody))"

definition createContractCallPayload ::
  "env \<Rightarrow> string \<Rightarrow> string \<Rightarrow> string \<Rightarrow> ClarityValue list \<Rightarrow> error + Payload" where
  "createContractCallPayload e contractAddress' contractName' functionName' functionArgs' =
     (case rejectContractCall e contractAddress' contractName' functionName' functionArgs' of
        Some err \<Rightarrow> Inl err
      | None \<Rightarrow>
          Inr (ContractCallPayload
                 \<lparr>contractAddress = contractAddress', contractName = contractName',
                  functionName = functionName', functionArgs = functionArgs'\<rparr>))"

definition DEFAULT_FEE_ESTIMATE_API_URL :: "env \<Rightarrow> string" where
  "DEFAULT_FEE_ESTIMATE_API_URL e = DEFAULT_CORE_NODE_API_URL e @ ''/v2/fees/transfer''"

text \<open>
  The fee estimators. The result is paired with the list of URLs fetched, in order, so
  that a throw before the fetch is told apart from a failure of the fetch. \<open>orDefault\<close> is
  \<^verbatim>\<open>apiUrl || default\<close>: an absent or empty string gives the default.
\<close>

definition orDefault :: "string option \<Rightarrow> string \<Rightarrow> string" where
  "orDefault apiUrl d = (case apiUrl of None \<Rightarrow> d | Some u \<Rightarrow> if u = [] then d else u)"

definition fetchFee :: "env \<Rightarrow> StacksTransaction \<Rightarrow> string \<Rightarrow> (error + int) \<times> string list" where
  "fetchFee e transaction url =
     (case fetchPrivate e url of
        Inl err \<Rightarrow> (Inl err, [url])
      | Inr feeRateResult \<Rightarrow>
          let txBytes = int (byteLength e transaction);
              feeRate = BigNum e feeRateResult
          in (Inr (feeRate * txBytes), [url]))"

definition estimateTransfer ::
  "env \<Rightarrow> StacksTransaction \<Rightarrow> string option \<Rightarrow> (error + int) \<times> string list" where
  "estimateTransfer e transaction apiUrl =
     (if payloadType (tx_payload transaction) \<noteq> TokenTransfer then (Inl NotTokenTransfer, [])
      else let url = orDefault apiUrl (DEFAULT_CORE_NODE_API_URL e @ ''/v2/fees/transfer'')
           in fetchFee e transaction url)"

definition estimateContractDeploy ::
  "env \<Rightarrow> StacksTransaction \<Rightarrow> string option \<Rightarrow> (error + int) \<times> string list" where
  "estimateContractDeploy e transaction apiUrl =
     (if payloadType (tx_payload transaction) \<noteq> TokenTransfer then (Inl NotTokenTransfer, [])
      else let url = orDefault apiUrl (DEFAULT_CORE_NODE_API_URL e @ ''/v2/fees/transfer'')
           in fetchFee e transaction url)"

definition estimateContractFunctionCall ::
  "env \<Rightarrow> StacksTransaction \<Rightarrow> string option \<Rightarrow> (error + int) \<times> string list" where
  "estimateContractFunctionCall e transaction apiUrl =
     (if payloadType (tx_payload transaction) \<noteq> TokenTransfer then (Inl NotTokenTransfer, [])
      else let url = orDefault apiUrl (DEFAULT_CORE_NODE_API_URL e @ ''/v2/fees/transfer'')
           in fetchFee e transaction url)"

text \<open>
  The options a caller passes (\<^verbatim>\<open>TokenTransferOptions\<close>; \<^verbatim>\<open>ContractDeployOptions\<close> and
  \<^verbatim>\<open>ContractCallOptions\<close> have the same properties but \<^verbatim>\<open>memo\<close>). Every property is
  optional: \<open>None\<close> is an absent property. A property present with the value
  \<^verbatim>\<open>undefined\<close> is not modelled.
\<close>

record TokenTransferOptions =
  fee :: "int option"
  feeEstimateApiUrl :: "string option"
  nonce :: "int option"
  version :: "TransactionVersion option"
  chainId :: "ChainID option"
  anchorMode :: "AnchorMode option"
  memo :: "string option"
  postConditionMode :: "PostConditionMode option"
  postConditions :: "PostCondition list option"

text \<open>
  The object that the literal \<^verbatim>\<open>defaultOptions\<close> creates. The literal has every property
  but \<^verbatim>\<open>postConditions\<close> (and, in the deploy and call builders, \<^verbatim>\<open>memo\<close>, which they never
  read). Objects live in a store and variables hold references, since
  \<^verbatim>\<open>Object.assign(target, source)\<close> writes the properties of \<^verbatim>\<open>source\<close> into the object
  \<^verbatim>\<open>target\<close> refers to and returns that same reference.
\<close>

record OptionsObject =
  o_fee :: int
  o_feeEstimateApiUrl :: string
  o_nonce :: int
  o_version :: TransactionVersion
  o_chainId :: ChainID
  o_anchorMode :: AnchorMode
  o_postConditionMode :: PostConditionMode
  o_memo :: string
  o_postConditions :: "PostCondition list option"

type_synonym ref = nat

type_synonym store = "OptionsObject list"

definition alloc :: "store \<Rightarrow> OptionsObject \<Rightarrow> store \<times> ref" where
  "alloc h obj = (h @ [obj], length h)"

definition assignProperties :: "OptionsObject \<Rightarrow> TokenTransferOptions \<Rightarrow> OptionsObject" where
  "assignProperties obj source =
     \<lparr>o_fee = (case fee source of Some v \<Rightarrow> v | None \<Rightarrow> o_fee obj),
      o_feeEstimateApiUrl =
        (case feeEstimateApiUrl source of Some v \<Rightarrow> v | None \<Rightarrow> o_feeEstimateApiUrl obj),
      o_nonce = (case nonce source of Some v \<Rightarrow> v | None \<Rightarrow> o_nonce obj),
      o_version = (case version source of Some v \<Rightarrow> v | None \<Rightarrow> o_version obj),
      o_chainId = (case chainId source of Some v \<Rightarrow> v | None \<Rightarrow> o_chainId obj),
      o_anchorMode = (case anchorMode source of Some v \<Rightarrow> v | None \<Rightarrow> o_anchorMode obj),
      o_postConditionMode =
        (case postConditionMode source of Some v \<Rightarrow> v | None \<Rightarrow> o_postConditionMode obj),
      o_memo = (case memo source of Some v \<Rightarrow> v | None \<Rightarrow> o_memo obj),
      o_postConditions =
        (case postConditions source of Some v \<Rightarrow> Some v | None \<Rightarrow> o_postConditions obj)\<rparr>"

definition Object_assign :: "store \<Rightarrow> ref \<Rightarrow> TokenTransferOptions option \<Rightarrow> store \<times> ref" where
  "Object_assign h target source =
     (case source of
        None \<Rightarrow> (h, target)
      | Some src \<Rightarrow> (h[target := assignProperties (h ! target) src], target))"

text \<open>\<^verbatim>\<open>!options?.fee\<close>: a fee, when present, is a big-number object and so truthy.\<close>

definition feeMissing :: "TokenTransferOptions option \<Rightarrow> bool" where
  "feeMissing options = (case options of None \<Rightarrow> True | Some opts \<Rightarrow> fee opts = None)"

text \<open>The local array \<^verbatim>\<open>postConditions\<close> after the \<^verbatim>\<open>forEach\<close>, and \<^verbatim>\<open>createLPList\<close>.\<close>

definition pushAll :: "PostCondition list option \<Rightarrow> PostCondition list" where
  "pushAll given = (case given of Some ps \<Rightarrow> if length ps > 0 then ps else [] | None \<Rightarrow> [])"

definition createLPList :: "PostCondition list \<Rightarrow> PostCondition list" where
  "createLPList ps = ps"

text \<open>\<^verbatim>\<open>new TransactionSigner(transaction).signOrigin(privKey)\<close>, then \<^verbatim>\<open>return transaction\<close>.\<close>

definition signAndReturn ::
  "env \<Rightarrow> StacksTransaction \<Rightarrow> string \<Rightarrow> string list \<Rightarrow> (error + StacksTransaction) \<times> string list"
where
  "signAndReturn e transaction privKey urls =
     (case signOrigin e transaction privKey of
        Inl err \<Rightarrow> (Inl err, urls)
      | Inr sig \<Rightarrow> (Inr (setSignature transaction sig), urls))"

definition makeSTXTokenTransfer ::
  "env \<Rightarrow> string + ClarityValue \<Rightarrow> int \<Rightarrow> string \<Rightarrow> TokenTransferOptions option
   \<Rightarrow> (error + StacksTransaction) \<times> string list"
where
  "makeSTXTokenTransfer e recipient amount senderKey options =
     (let (heap0, defaultOptions) =
            alloc []
              \<lparr>o_fee = 0, o_feeEstimateApiUrl = DEFAULT_FEE_ESTIMATE_API_URL e, o_nonce = 0,
               o_version = DEFAULT_TRANSACTION_VERSION e, o_chainId = DEFAULT_CHAIN_ID e,
               o_anchorMode = Any, o_postConditionMode = Deny, o_memo = [],
               o_postConditions = None\<rparr>;
          (heap, normalizedOptions) = Object_assign heap0 defaultOptions options
      in case createTokenTransferPayload e recipient amount (o_memo (heap ! normalizedOptions)) of
           Inl err \<Rightarrow> (Inl err, [])
         | Inr payload \<Rightarrow>
             let addressHashMode = SerializeP2PKH
             in (case createStacksPrivateKey e senderKey of
                   Inl err \<Rightarrow> (Inl err, [])
                 | Inr privKey \<Rightarrow>
                     (case getPublicKey e privKey of
                        Inl err \<Rightarrow> (Inl err, [])
                      | Inr pubKey \<Rightarrow>
                          let spendingCondition =
                                newSingleSigSpendingCondition addressHashMode
                                  (publicKeyToString e pubKey)
                                  (o_nonce (heap ! normalizedOptions))
                                  (o_fee (heap ! normalizedOptions));
                              authorization = StandardAuthorization spendingCondition;
                              postConditions' =
                                pushAll (o_postConditions (heap ! normalizedOptions));
                              lpPostConditions = createLPList postConditions';
                              transaction =
                                newStacksTransaction (o_version (heap ! normalizedOptions))
                                  authorization payload lpPostConditions
                                  (o_postConditionMode (heap ! normalizedOptions))
                                  (o_anchorMode (heap ! defaultOptions))
                                  (o_chainId (heap ! normalizedOptions))
                          in if feeMissing options then
                               (case estimateTransfer e transaction
                                       (Some (o_feeEstimateApiUrl (heap ! normalizedOptions))) of
                                  (Inl err, urls) \<Rightarrow> (Inl err, urls)
                                | (Inr txFee, urls) \<Rightarrow>
                                    if senderKey \<noteq> [] then
                                      signAndReturn e (setFee transaction txFee) privKey urls
                                    else (Inr (setFee transaction txFee), urls))
                             else if senderKey \<noteq> [] then
                               signAndReturn e transaction privKey []
                             else (Inr transaction, []))))"

definition makeSmartContractDeploy ::
  "env \<Rightarrow> string \<Rightarrow> string \<Rightarrow> string \<Rightarrow> TokenTransferOptions option
   \<Rightarrow> (error + StacksTransaction) \<times> string list"
where
  "makeSmartContractDeploy e contractName' codeBody senderKey options =
     (let (heap0, defaultOptions) =
            alloc []
              \<lparr>o_fee = 0, o_feeEstimateApiUrl = DEFAULT_FEE_ESTIMATE_API_URL e, o_nonce = 0,
               o_version = DEFAULT_TRANSACTION_VERSION e, o_chainId = DEFAULT_CHAIN_ID e,
               o_anchorMode = Any, o_postConditionMode = Deny, o_memo = [],
               o_postConditions = None\<rparr>;
          (heap, normalizedOptions) = Object_assign heap0 defaultOptions options
      in case createSmartContractPayload e contractName' codeBody of
           Inl err \<Rightarrow> (Inl err, [])
         | Inr payload \<Rightarrow>
             let addressHashMode = SerializeP2PKH
             in (case createStacksPrivateKey e senderKey of
                   Inl err \<Rightarrow> (Inl err, [])
                 | Inr privKey \<Rightarrow>
                     (case getPublicKey e privKey of
                        Inl err \<Rightarrow> (Inl err, [])
                      | Inr pubKey \<Rightarrow>
                          let spendingCondition =
                                newSingleSigSpendingCondition addressHashMode
                                  (publicKeyToString e pubKey)
                                  (o_nonce (heap ! normalizedOptions))
                                  (o_fee (heap ! normalizedOptions));
                              authorization = StandardAuthorization spendingCondition;
                              postConditions' =
                                pushAll (o_postConditions (heap ! normalizedOptions));
                              lpPostConditions = createLPList postConditions';
                              transaction =
                                newStacksTransaction (o_version (heap ! normalizedOptions))
                                  authorization payload lpPostConditions
                                  (o_postConditionMode (heap ! normalizedOptions))
                                  (o_anchorMode (heap ! normalizedOptions))
                                  (o_chainId (heap ! normalizedOptions))
                          in if feeMissing options then
                               (case estimateContractDeploy e transaction
                                       (Some (o_feeEstimateApiUrl (heap ! normalizedOptions))) of
                                  (Inl err, urls) \<Rightarrow> (Inl err, urls)
                                | (Inr txFee, urls) \<Rightarrow>
                                    signAndReturn e (setFee transaction txFee) privKey urls)
                             else signAndReturn e transaction privKey [])))"

definition makeContractCall ::
  "env \<Rightarrow> string \<Rightarrow> string \<Rightarrow> string \<Rightarrow> ClarityValue list \<Rightarrow> string
   \<Rightarrow> TokenTransferOptions option
   \<Rightarrow> (error + StacksTransaction) \<times> string list"
where
  "makeContractCall e contractAddress' contractName' functionName' functionArgs' senderKey options =
     (let (heap0, defaultOptions) =
            alloc []
              \<lparr>o_fee = 0, o_feeEstimateApiUrl = DEFAULT_FEE_ESTIMATE_API_URL e, o_nonce = 0,
               o_version = DEFAULT_TRANSACTION_VERSION e, o_chainId = DEFAULT_CHAIN_ID e,
               o_anchorMode = Any, o_postConditionMode = Deny, o_memo = [],
               o_postConditions = None\<rparr>;
          (heap, normalizedOptions) = Object_assign heap0 defaultOptions options
      in case createContractCallPayload e contractAddress' contractName' functionName'
             functionArgs' of
           Inl err \<Rightarrow> (Inl err, [])
         | Inr payload \<Rightarrow>
             let addressHashMode = SerializeP2PKH
             in (case createStacksPrivateKey e senderKey of
                   Inl err \<Rightarrow> (Inl err, [])
                 | Inr privKey \<Rightarrow>
                     (case getPublicKey e privKey of
                        Inl err \<Rightarrow> (Inl err, [])
                      | Inr pubKey \<Rightarrow>
                          let spendingCondition =
                                newSingleSigSpendingCondition addressHashMode
                                  (publicKeyToString e pubKey)
                                  (o_nonce (heap ! normalizedOptions))
                                  (o_fee (heap ! normalizedOptions));
                              authorization = StandardAuthorization spendingCondition;
                              postConditions' =
                                pushAll (o_postConditions (heap ! normalizedOptions));
                              lpPostConditions = createLPList postConditions';
                              transaction =
                                newStacksTransaction (o_version (heap ! normalizedOptions))
                                  authorization payload lpPostConditions
                                  (o_postConditionMode (heap ! normalizedOptions))
                                  (o_anchorMode (heap ! normalizedOptions))
                                  (o_chainId (heap ! normalizedOptions))
                          in if feeMissing options then
                               (case estimateContractFunctionCall e transaction
                                       (Some (o_feeEstimateApiUrl (heap ! normalizedOptions))) of
                                  (Inl err, urls) \<Rightarrow> (Inl err, urls)
                                | (Inr txFee, urls) \<Rightarrow>
                                    signAndReturn e (setFee transaction txFee) privKey urls)
                             else signAndReturn e transaction privKey [])))"

text \<open>
  For stating properties of the builders: the object that \<^verbatim>\<open>defaultOptions\<close> (and so
  \<^verbatim>\<open>normalizedOptions\<close>) refers to once \<^verbatim>\<open>Object.assign\<close> has run.
\<close>

definition mergedOptions :: "env \<Rightarrow> TokenTransferOptions option \<Rightarrow> OptionsObject" where
  "mergedOptions e options =
     (case options of
        None \<Rightarrow>
          \<lparr>o_fee = 0, o_feeEstimateApiUrl = DEFAULT_FEE_ESTIMATE_API_URL e, o_nonce = 0,
               o_version = DEFAULT_TRANSACTION_VERSION e, o_chainId = DEFAULT_CHAIN_ID e,
               o_anchorMode = Any, o_postConditionMode = Deny, o_memo = [],
               o_postConditions = None\<rparr>
      | Some src \<Rightarrow>
          assignProperties
          \<lparr>o_fee = 0, o_feeEstimateApiUrl = DEFAULT_FEE_ESTIMATE_API_URL e, o_nonce = 0,
               o_version = DEFAULT_TRANSACTION_VERSION e, o_chainId = DEFAULT_CHAIN_ID e,
               o_anchorMode = Any, o_postConditionMode = Deny, o_memo = [],
               o_postConditions = None\<rparr> src)"

section \<open>Properties of matchType\<close>

lemma matchTuple_Cons:
  "matchTuple tuple (e # rest) =
     ((\<exists>val. map_of tuple (fst e) = Some val \<and> matchType val (snd e))
      \<and> matchTuple (AList.delete (fst e) tuple) rest)"
  by (cases "map_of tuple (fst e)") auto

text \<open>
  What the loop over the declared entries computes: an entry is looked up in the copy from
  which the names of all earlier entries have been deleted, so a repeated declared name is
  never found.
\<close>

lemma matchTuple_iff:
  "matchTuple tuple entries =
     (distinct (map fst entries) \<and>
      (\<forall>e \<in> set entries. \<exists>val. map_of tuple (fst e) = Some val \<and> matchType val (snd e)))"
proof (induction entries arbitrary: tuple)
  case Nil
  show ?case by simp
next
  case (Cons e rest)
  have del: "map_of (AList.delete (fst e) tuple) k = (if k = fst e then None else map_of tuple k)"
    for k
    by (simp add: AList.delete_conv')
  have rest: "(\<forall>e' \<in> set rest. \<exists>val. map_of (AList.delete (fst e) tuple) (fst e') = Some val
                  \<and> matchType val (snd e'))
              = (fst e \<notin> set (map fst rest)
                 \<and> (\<forall>e' \<in> set rest. \<exists>val. map_of tuple (fst e') = Some val
                        \<and> matchType val (snd e')))"
  proof -
    have "(\<exists>val. map_of (AList.delete (fst e) tuple) (fst e') = Some val
              \<and> matchType val (snd e'))
          = (fst e' \<noteq> fst e
             \<and> (\<exists>val. map_of tuple (fst e') = Some val \<and> matchType val (snd e')))" for e'
      by (simp add: del)
    then show ?thesis by (simp add: image_iff) metis
  qed
  have "matchTuple tuple (e # rest) =
     ((\<exists>val. map_of tuple (fst e) = Some val \<and> matchType val (snd e))
      \<and> matchTuple (AList.delete (fst e) tuple) rest)"
    by (rule matchTuple_Cons)
  also have "matchTuple (AList.delete (fst e) tuple) rest =
     (distinct (map fst rest) \<and>
      (\<forall>e' \<in> set rest. \<exists>val. map_of (AList.delete (fst e) tuple) (fst e') = Some val
                  \<and> matchType val (snd e')))"
    by (rule Cons.IH)
  finally show ?case
    unfolding rest by (simp del: matchTuple.simps) blast
qed

text \<open>
  C1 (as amended). For every tuple value and declared tuple type, \<open>matchType\<close> returns true
  iff the declared field names are pairwise distinct and every declared field name is
  present in the tuple value with a value that matches the declared field type. Only the
  declared names are looked up, so fields of the value that the type does not name are
  ignored.
\<close>

theorem matchType_tuple:
  "matchType (TupleCV data) (TupleT entries) =
     (distinct (map fst entries) \<and>
      (\<forall>(name, t) \<in> set entries. \<exists>val. map_of data name = Some val \<and> matchType val t))"
  by (auto simp add: matchTuple_iff)

text \<open>
  The examples of the claim: a value with fields a, b, c matches a type declaring a and b;
  a value without b does not.
\<close>

theorem matchType_tuple_witness:
  "matchType (TupleCV [(''a'', IntCV 1), (''b'', BoolTrue), (''c'', BoolFalse)])
             (TupleT [(''a'', Int128T), (''b'', BoolT)])
   \<and> \<not> matchType (TupleCV [(''a'', IntCV 1), (''c'', BoolFalse)])
               (TupleT [(''a'', Int128T), (''b'', BoolT)])"
  using matchType_tuple [of "[(''a'', IntCV 1), (''b'', BoolTrue), (''c'', BoolFalse)]"
                            "[(''a'', Int128T), (''b'', BoolT)]"]
        matchType_tuple [of "[(''a'', IntCV 1), (''c'', BoolFalse)]"
                            "[(''a'', Int128T), (''b'', BoolT)]"]
  by simp

text \<open>
  C1 as stated fails when the declared type repeats a field name: the only declared name,
  a, is present in the value and its value matches the declared type, yet \<open>matchType\<close>
  returns false, because the first entry deletes a from the working copy.
\<close>

theorem matchType_tuple_repeated_name_counterexample:
  "matchType (IntCV 1) Int128T
   \<and> map_of [(''a'', IntCV 1)] ''a'' = Some (IntCV 1)
   \<and> \<not> matchType (TupleCV [(''a'', IntCV 1)]) (TupleT [(''a'', Int128T), (''a'', Int128T)])"
  by simp

text \<open>
  C2. For every list value and declared list type, \<open>matchType\<close> returns true iff the
  declared length equals the number of elements and every element matches the declared
  element type.
\<close>

theorem matchType_list:
  "matchType (ListCV l) (ListT t len) =
     (len = int (length l) \<and> (\<forall>val \<in> set l. matchType val t))"
  by (simp add: list_all_iff)

theorem matchType_list_witness:
  "matchType (ListCV [BoolTrue, BoolFalse]) (ListT BoolT 2)
   \<and> \<not> matchType (ListCV [BoolTrue, BoolFalse]) (ListT BoolT 3)
   \<and> \<not> matchType (ListCV [BoolTrue, IntCV 1]) (ListT BoolT 2)"
  using matchType_list [of "[BoolTrue, BoolFalse]" BoolT 2]
        matchType_list [of "[BoolTrue, BoolFalse]" BoolT 3]
        matchType_list [of "[BoolTrue, IntCV 1]" BoolT 2]
  by simp

text \<open>
  C3. For every buffer value and declared buffer type, \<open>matchType\<close> returns true iff the
  declared length equals the number of bytes of the buffer.
\<close>

theorem matchType_buffer:
  "matchType (BufferCV buffer) (BufferT len) = (len = int (length buffer))"
  by simp

theorem matchType_buffer_witness:
  "matchType (BufferCV [102, 111, 111]) (BufferT 3)
   \<and> \<not> matchType (BufferCV [102, 111, 111]) (BufferT 4)"
  using matchType_buffer [of "[102, 111, 111]" 3] matchType_buffer [of "[102, 111, 111]" 4]
  by simp

text \<open>
  C10. The value \<open>OptionalNone\<close> matches the primitive type none and every optional type,
  whatever its inner type (and no other type); a value \<open>OptionalSome v\<close> matches exactly
  the optional types whose inner type \<open>v\<close> matches.
\<close>

theorem matchType_optional:
  "matchType OptionalNone NoneT
   \<and> matchType OptionalNone (OptionalT T)
   \<and> (matchType OptionalNone A \<longleftrightarrow> A = NoneT \<or> (\<exists>T'. A = OptionalT T'))
   \<and> (matchType (OptionalSome v) A \<longleftrightarrow> (\<exists>T'. A = OptionalT T' \<and> matchType v T'))"
  by (cases A) auto

theorem matchType_optional_witness:
  "matchType OptionalNone (OptionalT (BufferT 7))
   \<and> matchType (OptionalSome BoolTrue) (OptionalT BoolT)
   \<and> \<not> matchType (OptionalSome BoolTrue) (OptionalT Int128T)
   \<and> \<not> matchType (OptionalSome BoolTrue) NoneT"
  using matchType_optional [of "BufferT 7" NoneT BoolTrue]
        matchType_optional [of BoolT "OptionalT BoolT" BoolTrue]
        matchType_optional [of BoolT "OptionalT Int128T" BoolTrue]
  by simp

section \<open>Properties of validateContractCall\<close>

lemma natToString_digit: "n < 10 \<Longrightarrow> natToString n = [''0123456789'' ! n]"
  by (subst natToString.simps) simp

lemma validateArgs_ok:
  "\<forall>j. i \<le> j \<and> j < length (functionArgs payload) \<longrightarrow>
         matchType (functionArgs payload ! j) (arg_type (abiArgs ! j))
   \<Longrightarrow> validateArgs h payload abiArgs i = Inr True"
proof (induction h payload abiArgs i rule: validateArgs.induct)
  case (1 h payload abiArgs i)
  show ?case
  proof (cases "i < length (functionArgs payload)")
    case True
    with "1.prems" have m: "matchType (functionArgs payload ! i) (arg_type (abiArgs ! i))"
      by simp
    have "validateArgs h payload abiArgs (i + 1) = Inr True"
      using "1.IH" True m "1.prems" by simp
    then show ?thesis using True m by (subst validateArgs.simps) simp
  next
    case False
    then show ?thesis by (subst validateArgs.simps) simp
  qed
qed

lemma validateArgs_first_failure:
  "i \<le> k \<Longrightarrow> k < length (functionArgs payload)
   \<Longrightarrow> \<not> matchType (functionArgs payload ! k) (arg_type (abiArgs ! k))
   \<Longrightarrow> \<forall>j. i \<le> j \<and> j < k \<longrightarrow> matchType (functionArgs payload ! j) (arg_type (abiArgs ! j))
   \<Longrightarrow> validateArgs h payload abiArgs i =
         (case getCVTypeString h (functionArgs payload ! k) of
            Inl err \<Rightarrow> Inl err
          | Inr actual \<Rightarrow>
              Inl (ArgumentTypeMismatch (functionName payload) k
                     (getTypeString h (arg_type (abiArgs ! k))) actual))"
proof (induction h payload abiArgs i rule: validateArgs.induct)
  case (1 h payload abiArgs i)
  have lt: "i < length (functionArgs payload)" using "1.prems" by simp
  show ?case
  proof (cases "i = k")
    case True
    then show ?thesis
      using "1.prems" by (subst validateArgs.simps) (simp split: sum.splits)
  next
    case False
    then have ik: "i < k" using "1.prems" by simp
    then have m: "matchType (functionArgs payload ! i) (arg_type (abiArgs ! i))"
      using "1.prems" by simp
    have "validateArgs h payload abiArgs (i + 1) =
         (case getCVTypeString h (functionArgs payload ! k) of
            Inl err \<Rightarrow> Inl err
          | Inr actual \<Rightarrow>
              Inl (ArgumentTypeMismatch (functionName payload) k
                     (getTypeString h (arg_type (abiArgs ! k))) actual))"
      using "1.IH" lt m ik "1.prems" by simp
    then show ?thesis using lt m by (subst validateArgs.simps) simp
  qed
qed

lemma validateContractCall_resolved:
  "filter (\<lambda>fn. fn_name fn = functionName payload) (abi_functions abi) = [abiFunc]
   \<Longrightarrow> validateContractCall h payload abi =
        (if length (functionArgs payload) \<noteq> length (fn_args abiFunc) then
           Inl (ArgumentCountMismatch (length (fn_args abiFunc)) (length (functionArgs payload)))
         else validateArgs h payload (fn_args abiFunc) 0)"
  by (simp add: validateContractCall_def)

text \<open>
  C4. Against an ABI in which exactly one function bears the called name and that function
  declares the argument types (uint128, bool), \<open>validateContractCall\<close> returns true for
  the arguments (UInt 10, BoolTrue), and for (Int 10, BoolTrue) it throws the type-mismatch
  error for the first argument (loop index 0, printed as argument 1) with expected type
  string "uint" and actual type string "int".
\<close>

theorem validateContractCall_uint_bool:
  assumes "filter (\<lambda>fn. fn_name fn = functionName payload) (abi_functions abi) = [abiFunc]"
    and "map arg_type (fn_args abiFunc) = [UInt128T, BoolT]"
  shows "(functionArgs payload = [UIntCV 10, BoolTrue] \<longrightarrow>
            validateContractCall h payload abi = Inr True)
       \<and> (functionArgs payload = [IntCV 10, BoolTrue] \<longrightarrow>
            validateContractCall h payload abi =
              Inl (ArgumentTypeMismatch (functionName payload) 0 ''uint'' ''int''))
       \<and> errorMessage (ArgumentTypeMismatch (functionName payload) 0 ''uint'' ''int'') =
            ''Clarity function `'' @ functionName payload
              @ ''` expects argument 1 to be of type uint, not int''"
proof -
  from assms(2) have len: "length (fn_args abiFunc) = 2"
  proof -
    have "length (map arg_type (fn_args abiFunc)) = 2" by (simp only: assms(2)) simp
    then show ?thesis by simp
  qed
  from assms(2) have t0: "arg_type (fn_args abiFunc ! 0) = UInt128T"
    and t1: "arg_type (fn_args abiFunc ! 1) = BoolT"
  proof -
    have "map arg_type (fn_args abiFunc) ! 0 = UInt128T"
      "map arg_type (fn_args abiFunc) ! 1 = BoolT"
      by (simp_all only: assms(2)) simp_all
    then show "arg_type (fn_args abiFunc ! 0) = UInt128T"
      "arg_type (fn_args abiFunc ! 1) = BoolT"
      using len by simp_all
  qed
  have ok: "validateContractCall h payload abi = Inr True"
    if args: "functionArgs payload = [UIntCV 10, BoolTrue]"
  proof -
    have "validateArgs h payload (fn_args abiFunc) 0 = Inr True"
      by (rule validateArgs_ok) (use t0 t1 in \<open>auto simp: args less_Suc_eq\<close>)
    then show ?thesis
      by (simp add: validateContractCall_resolved [OF assms(1)] len args)
  qed
  have bad: "validateContractCall h payload abi =
              Inl (ArgumentTypeMismatch (functionName payload) 0 ''uint'' ''int'')"
    if args: "functionArgs payload = [IntCV 10, BoolTrue]"
  proof -
    have "validateArgs h payload (fn_args abiFunc) 0 =
            (case getCVTypeString h (functionArgs payload ! 0) of
               Inl err \<Rightarrow> Inl err
             | Inr actual \<Rightarrow>
                 Inl (ArgumentTypeMismatch (functionName payload) 0
                        (getTypeString h (arg_type (fn_args abiFunc ! 0))) actual))"
      by (rule validateArgs_first_failure) (simp_all add: args t0)
    then show ?thesis
      by (simp add: validateContractCall_resolved [OF assms(1)] len args t0
            getCVTypeString_def)
  qed
  have msg: "errorMessage (ArgumentTypeMismatch (functionName payload) 0 ''uint'' ''int'') =
            ''Clarity function `'' @ functionName payload
              @ ''` expects argument 1 to be of type uint, not int''"
    by (simp add: natToString_digit)
  from ok bad msg show ?thesis by blast
qed

theorem validateContractCall_uint_bool_witness:
  "validateContractCall
     \<lparr>numberExponential = (\<lambda>i. ''1e+21''), cvTypeStringOther = (\<lambda>cv. Inr ''bool'')\<rparr>
     \<lparr>contractAddress = ''SP'', contractName = ''c'', functionName = ''f'',
      functionArgs = [UIntCV 10, BoolTrue]\<rparr>
     \<lparr>abi_functions =
        [\<lparr>fn_name = ''f'', fn_access = access_public,
          fn_args = [\<lparr>arg_name = ''x'', arg_type = UInt128T\<rparr>,
                     \<lparr>arg_name = ''y'', arg_type = BoolT\<rparr>],
          fn_outputs = BoolT\<rparr>],
      abi_variables = [], abi_maps = [], abi_fungible_tokens = [],
      abi_non_fungible_tokens = []\<rparr> = Inr True
   \<and> validateContractCall
     \<lparr>numberExponential = (\<lambda>i. ''1e+21''), cvTypeStringOther = (\<lambda>cv. Inr ''bool'')\<rparr>
     \<lparr>contractAddress = ''SP'', contractName = ''c'', functionName = ''f'',
      functionArgs = [IntCV 10, BoolTrue]\<rparr>
     \<lparr>abi_functions =
        [\<lparr>fn_name = ''f'', fn_access = access_public,
          fn_args = [\<lparr>arg_name = ''x'', arg_type = UInt128T\<rparr>,
                     \<lparr>arg_name = ''y'', arg_type = BoolT\<rparr>],
          fn_outputs = BoolT\<rparr>],
      abi_variables = [], abi_maps = [], abi_fungible_tokens = [],
      abi_non_fungible_tokens = []\<rparr> = Inl (ArgumentTypeMismatch ''f'' 0 ''uint'' ''int'')"
proof -
  let ?h = "\<lparr>numberExponential = (\<lambda>i. ''1e+21''), cvTypeStringOther = (\<lambda>cv. Inr ''bool'')\<rparr>"
  let ?f = "\<lparr>fn_name = ''f'', fn_access = access_public,
          fn_args = [\<lparr>arg_name = ''x'', arg_type = UInt128T\<rparr>,
                     \<lparr>arg_name = ''y'', arg_type = BoolT\<rparr>],
          fn_outputs = BoolT\<rparr>"
  let ?abi = "\<lparr>abi_functions = [?f], abi_variables = [], abi_maps = [],
      abi_fungible_tokens = [], abi_non_fungible_tokens = []\<rparr>"
  let ?p = "\<lambda>args. \<lparr>contractAddress = ''SP'', contractName = ''c'', functionName = ''f'',
      functionArgs = args\<rparr>"
  have r: "filter (\<lambda>fn. fn_name fn = functionName (?p args)) (abi_functions ?abi) = [?f]"
    for args
    by simp
  have t: "map arg_type (fn_args ?f) = [UInt128T, BoolT]" by simp
  from validateContractCall_uint_bool [OF r t, of "[UIntCV 10, BoolTrue]" ?h]
       validateContractCall_uint_bool [OF r t, of "[IntCV 10, BoolTrue]" ?h]
  show ?thesis by simp
qed




text \<open>
  C6. Resolution by name: no ABI function with the called name gives the function-not-found
  error, more than one gives the malformed-ABI error, and any other outcome (the argument
  checks and success) occurs only when exactly one function bears the name.
\<close>

theorem validateContractCall_resolution:
  "(length (filter (\<lambda>fn. fn_name fn = functionName payload) (abi_functions abi)) = 0 \<longrightarrow>
      validateContractCall h payload abi = Inl (FunctionNotFound (functionName payload)))
   \<and> (length (filter (\<lambda>fn. fn_name fn = functionName payload) (abi_functions abi)) > 1 \<longrightarrow>
      validateContractCall h payload abi = Inl (AmbiguousAbi (functionName payload)))
   \<and> (validateContractCall h payload abi \<noteq> Inl (FunctionNotFound (functionName payload))
      \<and> validateContractCall h payload abi \<noteq> Inl (AmbiguousAbi (functionName payload)) \<longrightarrow>
      length (filter (\<lambda>fn. fn_name fn = functionName payload) (abi_functions abi)) = 1)"
  by (auto simp add: validateContractCall_def Let_def)

theorem validateContractCall_resolution_witness:
  "validateContractCall
     \<lparr>numberExponential = (\<lambda>i. ''1e+21''), cvTypeStringOther = (\<lambda>cv. Inr ''bool'')\<rparr>
     \<lparr>contractAddress = ''SP'', contractName = ''c'', functionName = ''f'', functionArgs = []\<rparr>
     \<lparr>abi_functions = [], abi_variables = [], abi_maps = [], abi_fungible_tokens = [],
      abi_non_fungible_tokens = []\<rparr> = Inl (FunctionNotFound ''f'')
   \<and> validateContractCall
     \<lparr>numberExponential = (\<lambda>i. ''1e+21''), cvTypeStringOther = (\<lambda>cv. Inr ''bool'')\<rparr>
     \<lparr>contractAddress = ''SP'', contractName = ''c'', functionName = ''f'', functionArgs = []\<rparr>
     \<lparr>abi_functions =
        [\<lparr>fn_name = ''f'', fn_access = access_public, fn_args = [], fn_outputs = BoolT\<rparr>,
         \<lparr>fn_name = ''f'', fn_access = access_read_only, fn_args = [], fn_outputs = BoolT\<rparr>],
      abi_variables = [], abi_maps = [], abi_fungible_tokens = [],
      abi_non_fungible_tokens = []\<rparr> = Inl (AmbiguousAbi ''f'')"
proof -
  let ?h = "\<lparr>numberExponential = (\<lambda>i. ''1e+21''), cvTypeStringOther = (\<lambda>cv. Inr ''bool'')\<rparr>"
  let ?p = "\<lparr>contractAddress = ''SP'', contractName = ''c'', functionName = ''f'',
      functionArgs = []\<rparr>"
  let ?f = "\<lambda>a. \<lparr>fn_name = ''f'', fn_access = a, fn_args = [], fn_outputs = BoolT\<rparr>"
  let ?abi = "\<lambda>fs. \<lparr>abi_functions = fs, abi_variables = [], abi_maps = [],
      abi_fungible_tokens = [], abi_non_fungible_tokens = []\<rparr>"
  from validateContractCall_resolution [of ?p "?abi []" ?h]
       validateContractCall_resolution [of ?p "?abi [?f access_public, ?f access_read_only]" ?h]
  show ?thesis by simp
qed

section \<open>Properties of encodeClarityValue\<close>

text \<open>
  C7. For every input string, \<open>encodeClarityValue\<close> throws the not-implemented error when
  the declared type is a response, optional, tuple or list type, and whenever it returns a
  value the declared type is one of the primitive types or a buffer type.
\<close>

theorem encodeClarityValue_composite:
  "encodeClarityValue cvs (Inr (ResponseT ok err)) val =
     Inl (NotImplementedError ClarityAbiTypeResponse)
   \<and> encodeClarityValue cvs (Inr (OptionalT t)) val =
     Inl (NotImplementedError ClarityAbiTypeOptional)
   \<and> encodeClarityValue cvs (Inr (TupleT entries)) val =
     Inl (NotImplementedError ClarityAbiTypeTuple)
   \<and> encodeClarityValue cvs (Inr (ListT t len)) val =
     Inl (NotImplementedError ClarityAbiTypeList)
   \<and> (union_id (inputUnion input) \<in>
      {ClarityAbiTypeResponse, ClarityAbiTypeOptional, ClarityAbiTypeTuple, ClarityAbiTypeList}
    \<longrightarrow> encodeClarityValue cvs input val = Inl (NotImplementedError (union_id (inputUnion input))))
   \<and> (\<forall>cv. encodeClarityValue cvs input val = Inr cv \<longrightarrow>
        union_id (inputUnion input) \<in>
          {ClarityAbiTypeUInt128, ClarityAbiTypeInt128, ClarityAbiTypeBool,
           ClarityAbiTypePrincipal, ClarityAbiTypeNone, ClarityAbiTypeBuffer})"
proof -
  have composite: "encodeClarityValue cvs input val =
      Inl (NotImplementedError (union_id (inputUnion input)))"
    if "union_id (inputUnion input) \<in>
      {ClarityAbiTypeResponse, ClarityAbiTypeOptional, ClarityAbiTypeTuple, ClarityAbiTypeList}"
    for input
    using that by (auto simp add: encodeClarityValue_def Let_def)
  have returns: "union_id (inputUnion input) \<in>
          {ClarityAbiTypeUInt128, ClarityAbiTypeInt128, ClarityAbiTypeBool,
           ClarityAbiTypePrincipal, ClarityAbiTypeNone, ClarityAbiTypeBuffer}"
    if "encodeClarityValue cvs input val = Inr cv" for cv
    using that
    by (cases "union_id (inputUnion input)") (simp_all add: encodeClarityValue_def Let_def)
  show ?thesis
    using composite [of "Inr (ResponseT ok err)"] composite [of "Inr (OptionalT t)"]
      composite [of "Inr (TupleT entries)"] composite [of "Inr (ListT t len)"]
      composite [of input] returns
    by (simp add: inputUnion_def)
qed

theorem encodeClarityValue_composite_witness:
  "encodeClarityValue
     \<lparr>uintCV = (\<lambda>s. Inr (UIntCV 1)), intCV = (\<lambda>s. Inr (IntCV 1)),
      contractPrincipalCV = (\<lambda>a n. Inr (PrincipalContract a n)),
      standardPrincipalCV = (\<lambda>a. Inr (PrincipalStandard a)),
      bufferCV = (\<lambda>b. Inr (BufferCV b)), utf8 = map of_char\<rparr>
     (Inr (OptionalT BoolT)) ''true'' = Inl (NotImplementedError ClarityAbiTypeOptional)
   \<and> encodeClarityValue
     \<lparr>uintCV = (\<lambda>s. Inr (UIntCV 1)), intCV = (\<lambda>s. Inr (IntCV 1)),
      contractPrincipalCV = (\<lambda>a n. Inr (PrincipalContract a n)),
      standardPrincipalCV = (\<lambda>a. Inr (PrincipalStandard a)),
      bufferCV = (\<lambda>b. Inr (BufferCV b)), utf8 = map of_char\<rparr>
     (Inl \<lparr>union_id = ClarityAbiTypeList, union_type = ListT BoolT 1\<rparr>) ''true'' =
       Inl (NotImplementedError ClarityAbiTypeList)"
proof -
  let ?cvs = "\<lparr>uintCV = (\<lambda>s. Inr (UIntCV 1)), intCV = (\<lambda>s. Inr (IntCV 1)),
      contractPrincipalCV = (\<lambda>a n. Inr (PrincipalContract a n)),
      standardPrincipalCV = (\<lambda>a. Inr (PrincipalStandard a)),
      bufferCV = (\<lambda>b. Inr (BufferCV b)), utf8 = map of_char\<rparr>"
  let ?u = "Inl \<lparr>union_id = ClarityAbiTypeList, union_type = ListT BoolT 1\<rparr>
              :: ClarityAbiTypeUnion + ClarityAbiType"
  have u: "union_id (inputUnion ?u) \<in>
      {ClarityAbiTypeResponse, ClarityAbiTypeOptional, ClarityAbiTypeTuple, ClarityAbiTypeList}"
    by (simp add: inputUnion_def)
  from encodeClarityValue_composite
         [where cvs = ?cvs and val = "''true''" and t = BoolT and input = ?u] u
  show ?thesis by (simp add: inputUnion_def)
qed

section \<open>Properties of the transaction builders\<close>

lemma signAndReturn_anchor:
  "signAndReturn e transaction privKey urls = (Inr tx, urls') \<Longrightarrow>
     tx_anchorMode tx = tx_anchorMode transaction"
  by (auto simp: signAndReturn_def split: sum.splits Authorization.splits)

lemma setFee_anchor: "tx_anchorMode (setFee transaction amount) = tx_anchorMode transaction"
  by (simp split: Authorization.splits)

lemma mergedOptions_anchor:
  "o_anchorMode (mergedOptions e options) =
     (case options of None \<Rightarrow> Any
      | Some opts \<Rightarrow> (case anchorMode opts of None \<Rightarrow> Any | Some a \<Rightarrow> a))"
  by (simp add: mergedOptions_def assignProperties_def split: option.splits)

lemma transfer_tail_anchor:
  "(if feeMissing options then
      (case estimateTransfer e transaction url of
         (Inl err, urls) \<Rightarrow> (Inl err, urls)
       | (Inr txFee, urls) \<Rightarrow>
           if senderKey \<noteq> [] then signAndReturn e (setFee transaction txFee) privKey urls
           else (Inr (setFee transaction txFee), urls))
    else if senderKey \<noteq> [] then signAndReturn e transaction privKey []
    else (Inr transaction, [])) = (Inr tx, urls')
   \<Longrightarrow> tx_anchorMode tx = tx_anchorMode transaction"
  by (auto split: if_splits prod.splits sum.splits dest!: signAndReturn_anchor
        simp: setFee_anchor simp del: setFee.simps)

lemma contract_tail_anchor:
  "(if c then
      (case est of
         (Inl err, urls) \<Rightarrow> (Inl err, urls)
       | (Inr txFee, urls) \<Rightarrow> signAndReturn e (setFee transaction txFee) privKey urls)
    else signAndReturn e transaction privKey []) = (Inr tx, urls')
   \<Longrightarrow> tx_anchorMode tx = tx_anchorMode transaction"
  by (auto split: if_splits prod.splits sum.splits dest!: signAndReturn_anchor
        simp: setFee_anchor simp del: setFee.simps)

lemma makeSTXTokenTransfer_unfold:
  "makeSTXTokenTransfer e recipient amount senderKey options =
     (case createTokenTransferPayload e recipient amount (o_memo (mergedOptions e options)) of
        Inl err \<Rightarrow> (Inl err, [])
      | Inr payload \<Rightarrow>
          (case createStacksPrivateKey e senderKey of
             Inl err \<Rightarrow> (Inl err, [])
           | Inr privKey \<Rightarrow>
               (case getPublicKey e privKey of
                  Inl err \<Rightarrow> (Inl err, [])
                | Inr pubKey \<Rightarrow>
                    let transaction =
                          newStacksTransaction (o_version (mergedOptions e options))
                             (StandardAuthorization
                               (newSingleSigSpendingCondition SerializeP2PKH
                                 (publicKeyToString e pubKey)
                                 (o_nonce (mergedOptions e options))
                                 (o_fee (mergedOptions e options))))
                             payload
                             (createLPList (pushAll (o_postConditions (mergedOptions e options))))
                             (o_postConditionMode (mergedOptions e options))
                             (o_anchorMode (mergedOptions e options))
                             (o_chainId (mergedOptions e options))
                    in if feeMissing options then
                         (case estimateTransfer e transaction
                                  (Some (o_feeEstimateApiUrl (mergedOptions e options))) of
                             (Inl err, urls) \<Rightarrow> (Inl err, urls)
                           | (Inr txFee, urls) \<Rightarrow>
                               if senderKey \<noteq> [] then
                                 signAndReturn e (setFee transaction txFee) privKey urls
                               else (Inr (setFee transaction txFee), urls))
                        else if senderKey \<noteq> [] then signAndReturn e transaction privKey []
                        else (Inr transaction, []))))"
  unfolding makeSTXTokenTransfer_def mergedOptions_def
  by (cases options)
     (simp_all add: alloc_def Object_assign_def Let_def del: setFee.simps setSignature.simps
        cong: sum.case_cong if_cong prod.case_cong)

lemma makeSmartContractDeploy_unfold:
  "makeSmartContractDeploy e cn codeBody senderKey options =
     (case createSmartContractPayload e cn codeBody of
        Inl err \<Rightarrow> (Inl err, [])
      | Inr payload \<Rightarrow>
          (case createStacksPrivateKey e senderKey of
             Inl err \<Rightarrow> (Inl err, [])
           | Inr privKey \<Rightarrow>
               (case getPublicKey e privKey of
                  Inl err \<Rightarrow> (Inl err, [])
                | Inr pubKey \<Rightarrow>
                    let transaction =
                          newStacksTransaction (o_version (mergedOptions e options))
                             (StandardAuthorization
                               (newSingleSigSpendingCondition SerializeP2PKH
                                 (publicKeyToString e pubKey)
                                 (o_nonce (mergedOptions e options))
                                 (o_fee (mergedOptions e options))))
                             payload
                             (createLPList (pushAll (o_postConditions (mergedOptions e options))))
                             (o_postConditionMode (mergedOptions e options))
                             (o_anchorMode (mergedOptions e options))
                             (o_chainId (mergedOptions e options))
                    in if feeMissing options then
                         (case estimateContractDeploy e transaction
                                  (Some (o_feeEstimateApiUrl (mergedOptions e options))) of
                             (Inl err, urls) \<Rightarrow> (Inl err, urls)
                           | (Inr txFee, urls) \<Rightarrow>
                               signAndReturn e (setFee transaction txFee) privKey urls)
                        else signAndReturn e transaction privKey [])))"
  unfolding makeSmartContractDeploy_def mergedOptions_def
  by (cases options)
     (simp_all add: alloc_def Object_assign_def Let_def del: setFee.simps setSignature.simps
        cong: sum.case_cong if_cong prod.case_cong)

lemma makeContractCall_unfold:
  "makeContractCall e ca cn fn fa senderKey options =
     (case createContractCallPayload e ca cn fn fa of
        Inl err \<Rightarrow> (Inl err, [])
      | Inr payload \<Rightarrow>
          (case createStacksPrivateKey e senderKey of
             Inl err \<Rightarrow> (Inl err, [])
           | Inr privKey \<Rightarrow>
               (case getPublicKey e privKey of
                  Inl err \<Rightarrow> (Inl err, [])
                | Inr pubKey \<Rightarrow>
                    let transaction =
                          newStacksTransaction (o_version (mergedOptions e options))
                             (StandardAuthorization
                               (newSingleSigSpendingCondition SerializeP2PKH
                                 (publicKeyToString e pubKey)
                                 (o_nonce (mergedOptions e options))
                                 (o_fee (mergedOptions e options))))
                             payload
                             (createLPList (pushAll (o_postConditions (mergedOptions e options))))
                             (o_postConditionMode (mergedOptions e options))
                             (o_anchorMode (mergedOptions e options))
                             (o_chainId (mergedOptions e options))
                    in if feeMissing options then
                         (case estimateContractFunctionCall e transaction
                                  (Some (o_feeEstimateApiUrl (mergedOptions e options))) of
                             (Inl err, urls) \<Rightarrow> (Inl err, urls)
                           | (Inr txFee, urls) \<Rightarrow>
                               signAndReturn e (setFee transaction txFee) privKey urls)
                        else signAndReturn e transaction privKey [])))"
  unfolding makeContractCall_def mergedOptions_def
  by (cases options)
     (simp_all add: alloc_def Object_assign_def Let_def del: setFee.simps setSignature.simps
        cong: sum.case_cong if_cong prod.case_cong)

lemma makeSTXTokenTransfer_anchor:
  assumes "makeSTXTokenTransfer e recipient amount senderKey options = (Inr tx, urls)"
  shows "tx_anchorMode tx = o_anchorMode (mergedOptions e options)"
proof (cases "createTokenTransferPayload e recipient amount (o_memo (mergedOptions e options))")
  case (Inl err)
  with assms show ?thesis by (simp add: makeSTXTokenTransfer_unfold)
next
  case pay: (Inr payload)
  show ?thesis
  proof (cases "createStacksPrivateKey e senderKey")
    case (Inl err)
    with assms pay show ?thesis by (simp add: makeSTXTokenTransfer_unfold)
  next
    case priv: (Inr privKey)
    show ?thesis
    proof (cases "getPublicKey e privKey")
      case (Inl err)
      with assms pay priv show ?thesis by (simp add: makeSTXTokenTransfer_unfold)
    next
      case pub: (Inr pubKey)
      from assms have "tx_anchorMode tx = tx_anchorMode
          (newStacksTransaction (o_version (mergedOptions e options))
                             (StandardAuthorization
                               (newSingleSigSpendingCondition SerializeP2PKH
                                 (publicKeyToString e pubKey)
                                 (o_nonce (mergedOptions e options))
                                 (o_fee (mergedOptions e options))))
                             payload
                             (createLPList (pushAll (o_postConditions (mergedOptions e options))))
                             (o_postConditionMode (mergedOptions e options))
                             (o_anchorMode (mergedOptions e options))
                             (o_chainId (mergedOptions e options)))"
        unfolding makeSTXTokenTransfer_unfold pay priv pub sum.case Let_def
        by (rule transfer_tail_anchor)
      then show ?thesis by (simp add: newStacksTransaction_def)
    qed
  qed
qed

lemma makeSmartContractDeploy_anchor:
  assumes "makeSmartContractDeploy e cn codeBody senderKey options = (Inr tx, urls)"
  shows "tx_anchorMode tx = o_anchorMode (mergedOptions e options)"
proof (cases "createSmartContractPayload e cn codeBody")
  case (Inl err)
  with assms show ?thesis by (simp add: makeSmartContractDeploy_unfold)
next
  case pay: (Inr payload)
  show ?thesis
  proof (cases "createStacksPrivateKey e senderKey")
    case (Inl err)
    with assms pay show ?thesis by (simp add: makeSmartContractDeploy_unfold)
  next
    case priv: (Inr privKey)
    show ?thesis
    proof (cases "getPublicKey e privKey")
      case (Inl err)
      with assms pay priv show ?thesis by (simp add: makeSmartContractDeploy_unfold)
    next
      case pub: (Inr pubKey)
      from assms have "tx_anchorMode tx = tx_anchorMode
          (newStacksTransaction (o_version (mergedOptions e options))
                             (StandardAuthorization
                               (newSingleSigSpendingCondition SerializeP2PKH
                                 (publicKeyToString e pubKey)
                                 (o_nonce (mergedOptions e options))
                                 (o_fee (mergedOptions e options))))
                             payload
                             (createLPList (pushAll (o_postConditions (mergedOptions e options))))
                             (o_postConditionMode (mergedOptions e options))
                             (o_anchorMode (mergedOptions e options))
                             (o_chainId (mergedOptions e options)))"
        unfolding makeSmartContractDeploy_unfold pay priv pub sum.case Let_def
        by (rule contract_tail_anchor)
      then show ?thesis by (simp add: newStacksTransaction_def)
    qed
  qed
qed

lemma makeContractCall_anchor:
  assumes "makeContractCall e ca cn fn fa senderKey options = (Inr tx, urls)"
  shows "tx_anchorMode tx = o_anchorMode (mergedOptions e options)"
proof (cases "createContractCallPayload e ca cn fn fa")
  case (Inl err)
  with assms show ?thesis by (simp add: makeContractCall_unfold)
next
  case pay: (Inr payload)
  show ?thesis
  proof (cases "createStacksPrivateKey e senderKey")
    case (Inl err)
    with assms pay show ?thesis by (simp add: makeContractCall_unfold)
  next
    case priv: (Inr privKey)
    show ?thesis
    proof (cases "getPublicKey e privKey")
      case (Inl err)
      with assms pay priv show ?thesis by (simp add: makeContractCall_unfold)
    next
      case pub: (Inr pubKey)
      from assms have "tx_anchorMode tx = tx_anchorMode
          (newStacksTransaction (o_version (mergedOptions e options))
                             (StandardAuthorization
                               (newSingleSigSpendingCondition SerializeP2PKH
                                 (publicKeyToString e pubKey)
                                 (o_nonce (mergedOptions e options))
                                 (o_fee (mergedOptions e options))))
                             payload
                             (createLPList (pushAll (o_postConditions (mergedOptions e options))))
                             (o_postConditionMode (mergedOptions e options))
                             (o_anchorMode (mergedOptions e options))
                             (o_chainId (mergedOptions e options)))"
        unfolding makeContractCall_unfold pay priv pub sum.case Let_def
        by (rule contract_tail_anchor)
      then show ?thesis by (simp add: newStacksTransaction_def)
    qed
  qed
qed

lemma makeSmartContractDeploy_no_fee:
  assumes "feeMissing options"
  shows "makeSmartContractDeploy e cn codeBody senderKey options =
     (case createSmartContractPayload e cn codeBody of
        Inl err \<Rightarrow> (Inl err, [])
      | Inr payload \<Rightarrow>
          (case createStacksPrivateKey e senderKey of
             Inl err \<Rightarrow> (Inl err, [])
           | Inr privKey \<Rightarrow>
               (case getPublicKey e privKey of
                  Inl err \<Rightarrow> (Inl err, [])
                | Inr pubKey \<Rightarrow> (Inl NotTokenTransfer, []))))"
proof (cases "createSmartContractPayload e cn codeBody")
  case (Inl err)
  then show ?thesis by (simp add: makeSmartContractDeploy_unfold)
next
  case (Inr payload)
  then have "payloadType payload \<noteq> TokenTransfer"
    by (auto simp: createSmartContractPayload_def split: option.splits)
  with Inr assms show ?thesis
    by (simp add: makeSmartContractDeploy_unfold Let_def estimateContractDeploy_def newStacksTransaction_def
          cong: sum.case_cong)
qed

lemma makeContractCall_no_fee:
  assumes "feeMissing options"
  shows "makeContractCall e ca cn fn fa senderKey options =
     (case createContractCallPayload e ca cn fn fa of
        Inl err \<Rightarrow> (Inl err, [])
      | Inr payload \<Rightarrow>
          (case createStacksPrivateKey e senderKey of
             Inl err \<Rightarrow> (Inl err, [])
           | Inr privKey \<Rightarrow>
               (case getPublicKey e privKey of
                  Inl err \<Rightarrow> (Inl err, [])
                | Inr pubKey \<Rightarrow> (Inl NotTokenTransfer, []))))"
proof (cases "createContractCallPayload e ca cn fn fa")
  case (Inl err)
  then show ?thesis by (simp add: makeContractCall_unfold)
next
  case (Inr payload)
  then have "payloadType payload \<noteq> TokenTransfer"
    by (auto simp: createContractCallPayload_def split: option.splits)
  with Inr assms show ?thesis
    by (simp add: makeContractCall_unfold Let_def estimateContractFunctionCall_def newStacksTransaction_def
          cong: sum.case_cong)
qed

text \<open>
  C8 (as amended). For every transaction whose payload is not a token transfer,
  \<open>estimateContractDeploy\<close> and \<open>estimateContractFunctionCall\<close> throw the error "Transaction
  is not a token transfer" without fetching anything. Consequently
  \<open>makeSmartContractDeploy\<close> and \<open>makeContractCall\<close>, called without a fee option, never
  return a transaction and never fetch: when the payload constructor and the two key
  functions return, the builder throws this error, since its payload is a contract-deploy
  or a contract-call payload; when one of them throws, the builder throws that error.
\<close>

theorem contract_fee_estimate_rejected:
  "(payloadType (tx_payload transaction) \<noteq> TokenTransfer \<longrightarrow>
      estimateContractDeploy e transaction apiUrl = (Inl NotTokenTransfer, [])
      \<and> estimateContractFunctionCall e transaction apiUrl = (Inl NotTokenTransfer, []))
   \<and> errorMessage NotTokenTransfer = ''Transaction is not a token transfer''
   \<and> (feeMissing options \<longrightarrow>
        makeSmartContractDeploy e cn codeBody senderKey options =
          (case createSmartContractPayload e cn codeBody of
              Inl err \<Rightarrow> (Inl err, [])
            | Inr payload \<Rightarrow>
                (case createStacksPrivateKey e senderKey of
                   Inl err \<Rightarrow> (Inl err, [])
                 | Inr privKey \<Rightarrow>
                     (case getPublicKey e privKey of
                        Inl err \<Rightarrow> (Inl err, [])
                      | Inr pubKey \<Rightarrow> (Inl NotTokenTransfer, []))))
        \<and> makeContractCall e ca cn fn fa senderKey options =
          (case createContractCallPayload e ca cn fn fa of
              Inl err \<Rightarrow> (Inl err, [])
            | Inr payload \<Rightarrow>
                (case createStacksPrivateKey e senderKey of
                   Inl err \<Rightarrow> (Inl err, [])
                 | Inr privKey \<Rightarrow>
                     (case getPublicKey e privKey of
                        Inl err \<Rightarrow> (Inl err, [])
                      | Inr pubKey \<Rightarrow> (Inl NotTokenTransfer, []))))
        \<and> (\<exists>err. makeSmartContractDeploy e cn codeBody senderKey options = (Inl err, []))
        \<and> (\<exists>err. makeContractCall e ca cn fn fa senderKey options = (Inl err, [])))"
proof (intro conjI impI)
  assume "payloadType (tx_payload transaction) \<noteq> TokenTransfer"
  then show "estimateContractDeploy e transaction apiUrl = (Inl NotTokenTransfer, [])"
    and "estimateContractFunctionCall e transaction apiUrl = (Inl NotTokenTransfer, [])"
    by (simp_all add: estimateContractDeploy_def estimateContractFunctionCall_def)
next
  show "errorMessage NotTokenTransfer = ''Transaction is not a token transfer''" by simp
next
  assume m: "feeMissing options"
  show "makeSmartContractDeploy e cn codeBody senderKey options =
          (case createSmartContractPayload e cn codeBody of
              Inl err \<Rightarrow> (Inl err, [])
            | Inr payload \<Rightarrow>
                (case createStacksPrivateKey e senderKey of
                   Inl err \<Rightarrow> (Inl err, [])
                 | Inr privKey \<Rightarrow>
                     (case getPublicKey e privKey of
                        Inl err \<Rightarrow> (Inl err, [])
                      | Inr pubKey \<Rightarrow> (Inl NotTokenTransfer, []))))"
    by (rule makeSmartContractDeploy_no_fee [OF m])
  show "makeContractCall e ca cn fn fa senderKey options =
          (case createContractCallPayload e ca cn fn fa of
              Inl err \<Rightarrow> (Inl err, [])
            | Inr payload \<Rightarrow>
                (case createStacksPrivateKey e senderKey of
                   Inl err \<Rightarrow> (Inl err, [])
                 | Inr privKey \<Rightarrow>
                     (case getPublicKey e privKey of
                        Inl err \<Rightarrow> (Inl err, [])
                      | Inr pubKey \<Rightarrow> (Inl NotTokenTransfer, []))))"
    by (rule makeContractCall_no_fee [OF m])
  show "\<exists>err. makeSmartContractDeploy e cn codeBody senderKey options = (Inl err, [])"
    unfolding makeSmartContractDeploy_no_fee [OF m] by (simp split: sum.splits)
  show "\<exists>err. makeContractCall e ca cn fn fa senderKey options = (Inl err, [])"
    unfolding makeContractCall_no_fee [OF m] by (simp split: sum.splits)
qed

theorem contract_fee_estimate_rejected_witness:
  "makeSmartContractDeploy
     \<lparr>DEFAULT_CORE_NODE_API_URL = ''http://node'', DEFAULT_TRANSACTION_VERSION = Mainnet,
      DEFAULT_CHAIN_ID = 1, fetchPrivate = (\<lambda>url. Inr ''1''), BigNum = (\<lambda>s. 1),
      byteLength = (\<lambda>t. 180), rejectTokenTransfer = (\<lambda>r a m. None),
      rejectSmartContract = (\<lambda>n c. None), rejectContractCall = (\<lambda>a c f args. None),
      createStacksPrivateKey = (\<lambda>k. Inr k), getPublicKey = (\<lambda>k. Inr k),
      publicKeyToString = (\<lambda>k. k), signOrigin = (\<lambda>t k. Inr ''sig'')\<rparr>
     ''contract_name'' ''(define-public (f) (ok 1))''
     ''b244296d5907de9864c0b0d51f98a13c52890be0404e83f273144cd5b9960eed01'' None = (Inl NotTokenTransfer, [])
   \<and> makeContractCall
     \<lparr>DEFAULT_CORE_NODE_API_URL = ''http://node'', DEFAULT_TRANSACTION_VERSION = Mainnet,
      DEFAULT_CHAIN_ID = 1, fetchPrivate = (\<lambda>url. Inr ''1''), BigNum = (\<lambda>s. 1),
      byteLength = (\<lambda>t. 180), rejectTokenTransfer = (\<lambda>r a m. None),
      rejectSmartContract = (\<lambda>n c. None), rejectContractCall = (\<lambda>a c f args. None),
      createStacksPrivateKey = (\<lambda>k. Inr k), getPublicKey = (\<lambda>k. Inr k),
      publicKeyToString = (\<lambda>k. k), signOrigin = (\<lambda>t k. Inr ''sig'')\<rparr>
     ''SPBMRFRPPGCDE3F384WCJPK8PQJGZ8K9QKK7F59X'' ''contract_name'' ''contract_function''
     [BufferCV [102, 111, 111]]
     ''b244296d5907de9864c0b0d51f98a13c52890be0404e83f273144cd5b9960eed01''
     (Some \<lparr>fee = None, feeEstimateApiUrl = None, nonce = None, version = None,
            chainId = None, anchorMode = Some OnChainOnly, memo = None, postConditionMode = None,
            postConditions = None\<rparr>) = (Inl NotTokenTransfer, [])
   \<and> estimateContractDeploy
     \<lparr>DEFAULT_CORE_NODE_API_URL = ''http://node'', DEFAULT_TRANSACTION_VERSION = Mainnet,
      DEFAULT_CHAIN_ID = 1, fetchPrivate = (\<lambda>url. Inr ''1''), BigNum = (\<lambda>s. 1),
      byteLength = (\<lambda>t. 180), rejectTokenTransfer = (\<lambda>r a m. None),
      rejectSmartContract = (\<lambda>n c. None), rejectContractCall = (\<lambda>a c f args. None),
      createStacksPrivateKey = (\<lambda>k. Inr k), getPublicKey = (\<lambda>k. Inr k),
      publicKeyToString = (\<lambda>k. k), signOrigin = (\<lambda>t k. Inr ''sig'')\<rparr>
     (newStacksTransaction Mainnet
        (StandardAuthorization (newSingleSigSpendingCondition SerializeP2PKH ''key'' 0 0))
        (SmartContractPayload ''contract_name'' ''(define-public (f) (ok 1))'') [] Deny Any 1)
     None = (Inl NotTokenTransfer, [])"
proof -
  let ?e = "\<lparr>DEFAULT_CORE_NODE_API_URL = ''http://node'', DEFAULT_TRANSACTION_VERSION = Mainnet,
      DEFAULT_CHAIN_ID = 1, fetchPrivate = (\<lambda>url. Inr ''1''), BigNum = (\<lambda>s. 1),
      byteLength = (\<lambda>t. 180), rejectTokenTransfer = (\<lambda>r a m. None),
      rejectSmartContract = (\<lambda>n c. None), rejectContractCall = (\<lambda>a c f args. None),
      createStacksPrivateKey = (\<lambda>k. Inr k), getPublicKey = (\<lambda>k. Inr k),
      publicKeyToString = (\<lambda>k. k), signOrigin = (\<lambda>t k. Inr ''sig'')\<rparr>"
  let ?t = "newStacksTransaction Mainnet
        (StandardAuthorization (newSingleSigSpendingCondition SerializeP2PKH ''key'' 0 0))
        (SmartContractPayload ''contract_name'' ''(define-public (f) (ok 1))'') [] Deny Any 1"
  let ?o = "Some \<lparr>fee = None, feeEstimateApiUrl = None, nonce = None, version = None,
            chainId = None, anchorMode = Some OnChainOnly, memo = None, postConditionMode = None,
            postConditions = None\<rparr>"
  let ?k = "''b244296d5907de9864c0b0d51f98a13c52890be0404e83f273144cd5b9960eed01''"
  have p: "payloadType (tx_payload ?t) \<noteq> TokenTransfer"
    by (simp add: newStacksTransaction_def)
  have m1: "feeMissing None" by (simp add: feeMissing_def)
  have m2: "feeMissing ?o" by (simp add: feeMissing_def)
  from contract_fee_estimate_rejected
         [where e = ?e and transaction = ?t and apiUrl = None and options = None
            and cn = "''contract_name''" and codeBody = "''(define-public (f) (ok 1))''"
            and senderKey = ?k and ca = "''SPBMRFRPPGCDE3F384WCJPK8PQJGZ8K9QKK7F59X''"
            and fn = "''contract_function''" and fa = "[BufferCV [102, 111, 111]]"]
       contract_fee_estimate_rejected
         [where e = ?e and transaction = ?t and apiUrl = None and options = ?o
            and cn = "''contract_name''" and codeBody = "''(define-public (f) (ok 1))''"
            and senderKey = ?k and ca = "''SPBMRFRPPGCDE3F384WCJPK8PQJGZ8K9QKK7F59X''"
            and fn = "''contract_function''" and fa = "[BufferCV [102, 111, 111]]"]
       p m1 m2
  show ?thesis
    by (simp add: createSmartContractPayload_def createContractCallPayload_def)
qed

text \<open>
  C8 as stated fails: without a fee option, \<open>makeContractCall\<close> does not reach the estimator
  when the payload constructor rejects the contract address. The error thrown is the
  constructor's, not "Transaction is not a token transfer".
\<close>

theorem makeContractCall_no_fee_counterexample:
  "makeContractCall
     \<lparr>DEFAULT_CORE_NODE_API_URL = ''http://node'', DEFAULT_TRANSACTION_VERSION = Mainnet,
      DEFAULT_CHAIN_ID = 1, fetchPrivate = (\<lambda>url. Inr ''1''), BigNum = (\<lambda>s. 1),
      byteLength = (\<lambda>t. 180), rejectTokenTransfer = (\<lambda>r a m. None),
      rejectSmartContract = (\<lambda>n c. None),
      rejectContractCall =
        (\<lambda>a c f args. if a = ''SP'' then Some (External ''Invalid c32 address'') else None),
      createStacksPrivateKey = (\<lambda>k. Inr k), getPublicKey = (\<lambda>k. Inr k),
      publicKeyToString = (\<lambda>k. k), signOrigin = (\<lambda>t k. Inr ''sig'')\<rparr>
     ''SP'' ''hello'' ''f'' [UIntCV 10] ''key'' None = (Inl (External ''Invalid c32 address''), [])
   \<and> External ''Invalid c32 address'' \<noteq> NotTokenTransfer"
  by (simp add: makeContractCall_def alloc_def Object_assign_def createContractCallPayload_def)

text \<open>
  C9 (as amended). Whenever \<open>makeSTXTokenTransfer\<close>, \<open>makeSmartContractDeploy\<close> or
  \<open>makeContractCall\<close> returns a transaction, its anchor mode is the anchor mode of the
  options when the caller gave one, and the default \<open>Any\<close> otherwise.
\<close>

theorem builders_anchorMode:
  "(makeSTXTokenTransfer e recipient amount senderKey options = (Inr tx, urls) \<longrightarrow>
      tx_anchorMode tx =
        (case options of None \<Rightarrow> Any
         | Some opts \<Rightarrow> (case anchorMode opts of None \<Rightarrow> Any | Some a \<Rightarrow> a)))
   \<and> (makeSmartContractDeploy e cn codeBody senderKey options = (Inr tx, urls) \<longrightarrow>
      tx_anchorMode tx =
        (case options of None \<Rightarrow> Any
         | Some opts \<Rightarrow> (case anchorMode opts of None \<Rightarrow> Any | Some a \<Rightarrow> a)))
   \<and> (makeContractCall e ca cn fn fa senderKey options = (Inr tx, urls) \<longrightarrow>
      tx_anchorMode tx =
        (case options of None \<Rightarrow> Any
         | Some opts \<Rightarrow> (case anchorMode opts of None \<Rightarrow> Any | Some a \<Rightarrow> a)))"
  using makeSTXTokenTransfer_anchor [of e recipient amount senderKey options tx urls]
        makeSmartContractDeploy_anchor [of e cn codeBody senderKey options tx urls]
        makeContractCall_anchor [of e ca cn fn fa senderKey options tx urls]
  unfolding mergedOptions_anchor by blast

theorem builders_anchorMode_witness:
  "(case makeSTXTokenTransfer
     \<lparr>DEFAULT_CORE_NODE_API_URL = ''http://node'', DEFAULT_TRANSACTION_VERSION = Mainnet,
      DEFAULT_CHAIN_ID = 1, fetchPrivate = (\<lambda>url. Inr ''1''), BigNum = (\<lambda>s. 1),
      byteLength = (\<lambda>t. 180), rejectTokenTransfer = (\<lambda>r a m. None),
      rejectSmartContract = (\<lambda>n c. None), rejectContractCall = (\<lambda>a c f args. None),
      createStacksPrivateKey = (\<lambda>k. Inr k), getPublicKey = (\<lambda>k. Inr k),
      publicKeyToString = (\<lambda>k. k), signOrigin = (\<lambda>t k. Inr ''sig'')\<rparr>
     (Inl ''SP3FGQ8Z7JY9BWYZ5WM53E0M9NK7WHJF0691NZ159'') 12345
     ''b244296d5907de9864c0b0d51f98a13c52890be0404e83f273144cd5b9960eed01''
     (Some \<lparr>fee = Some 200, feeEstimateApiUrl = None, nonce = None, version = None,
            chainId = None, anchorMode = Some OffChainOnly, memo = None, postConditionMode = None,
            postConditions = None\<rparr>) of
      (Inr tx, urls) \<Rightarrow> tx_anchorMode tx = OffChainOnly
    | (Inl err, urls) \<Rightarrow> False)
   \<and> (case makeSTXTokenTransfer
     \<lparr>DEFAULT_CORE_NODE_API_URL = ''http://node'', DEFAULT_TRANSACTION_VERSION = Mainnet,
      DEFAULT_CHAIN_ID = 1, fetchPrivate = (\<lambda>url. Inr ''1''), BigNum = (\<lambda>s. 1),
      byteLength = (\<lambda>t. 180), rejectTokenTransfer = (\<lambda>r a m. None),
      rejectSmartContract = (\<lambda>n c. None), rejectContractCall = (\<lambda>a c f args. None),
      createStacksPrivateKey = (\<lambda>k. Inr k), getPublicKey = (\<lambda>k. Inr k),
      publicKeyToString = (\<lambda>k. k), signOrigin = (\<lambda>t k. Inr ''sig'')\<rparr>
     (Inl ''SP3FGQ8Z7JY9BWYZ5WM53E0M9NK7WHJF0691NZ159'') 12345
     ''b244296d5907de9864c0b0d51f98a13c52890be0404e83f273144cd5b9960eed01'' None of
      (Inr tx, urls) \<Rightarrow> tx_anchorMode tx = Any \<and> urls = [''http://node/v2/fees/transfer'']
    | (Inl err, urls) \<Rightarrow> False)
   \<and> (case makeSmartContractDeploy
     \<lparr>DEFAULT_CORE_NODE_API_URL = ''http://node'', DEFAULT_TRANSACTION_VERSION = Mainnet,
      DEFAULT_CHAIN_ID = 1, fetchPrivate = (\<lambda>url. Inr ''1''), BigNum = (\<lambda>s. 1),
      byteLength = (\<lambda>t. 180), rejectTokenTransfer = (\<lambda>r a m. None),
      rejectSmartContract = (\<lambda>n c. None), rejectContractCall = (\<lambda>a c f args. None),
      createStacksPrivateKey = (\<lambda>k. Inr k), getPublicKey = (\<lambda>k. Inr k),
      publicKeyToString = (\<lambda>k. k), signOrigin = (\<lambda>t k. Inr ''sig'')\<rparr>
     ''contract_name'' ''(define-public (f) (ok 1))''
     ''b244296d5907de9864c0b0d51f98a13c52890be0404e83f273144cd5b9960eed01''
     (Some \<lparr>fee = Some 200, feeEstimateApiUrl = None, nonce = None, version = None,
            chainId = None, anchorMode = Some OffChainOnly, memo = None, postConditionMode = None,
            postConditions = None\<rparr>) of
      (Inr tx, urls) \<Rightarrow> tx_anchorMode tx = OffChainOnly
    | (Inl err, urls) \<Rightarrow> False)
   \<and> (case makeContractCall
     \<lparr>DEFAULT_CORE_NODE_API_URL = ''http://node'', DEFAULT_TRANSACTION_VERSION = Mainnet,
      DEFAULT_CHAIN_ID = 1, fetchPrivate = (\<lambda>url. Inr ''1''), BigNum = (\<lambda>s. 1),
      byteLength = (\<lambda>t. 180), rejectTokenTransfer = (\<lambda>r a m. None),
      rejectSmartContract = (\<lambda>n c. None), rejectContractCall = (\<lambda>a c f args. None),
      createStacksPrivateKey = (\<lambda>k. Inr k), getPublicKey = (\<lambda>k. Inr k),
      publicKeyToString = (\<lambda>k. k), signOrigin = (\<lambda>t k. Inr ''sig'')\<rparr>
     ''SPBMRFRPPGCDE3F384WCJPK8PQJGZ8K9QKK7F59X'' ''contract_name'' ''contract_function''
     [BufferCV [102, 111, 111]]
     ''b244296d5907de9864c0b0d51f98a13c52890be0404e83f273144cd5b9960eed01''
     (Some \<lparr>fee = Some 200, feeEstimateApiUrl = None, nonce = None, version = None,
            chainId = None, anchorMode = Some OffChainOnly, memo = None, postConditionMode = None,
            postConditions = None\<rparr>) of
      (Inr tx, urls) \<Rightarrow> tx_anchorMode tx = OffChainOnly
    | (Inl err, urls) \<Rightarrow> False)"
proof -
  let ?e = "\<lparr>DEFAULT_CORE_NODE_API_URL = ''http://node'', DEFAULT_TRANSACTION_VERSION = Mainnet,
      DEFAULT_CHAIN_ID = 1, fetchPrivate = (\<lambda>url. Inr ''1''), BigNum = (\<lambda>s. 1),
      byteLength = (\<lambda>t. 180), rejectTokenTransfer = (\<lambda>r a m. None),
      rejectSmartContract = (\<lambda>n c. None), rejectContractCall = (\<lambda>a c f args. None),
      createStacksPrivateKey = (\<lambda>k. Inr k), getPublicKey = (\<lambda>k. Inr k),
      publicKeyToString = (\<lambda>k. k), signOrigin = (\<lambda>t k. Inr ''sig'')\<rparr>"
  let ?o = "Some \<lparr>fee = Some 200, feeEstimateApiUrl = None, nonce = None, version = None,
            chainId = None, anchorMode = Some OffChainOnly, memo = None, postConditionMode = None,
            postConditions = None\<rparr>"
  let ?r = "Inl ''SP3FGQ8Z7JY9BWYZ5WM53E0M9NK7WHJF0691NZ159'' :: string + ClarityValue"
  let ?k = "''b244296d5907de9864c0b0d51f98a13c52890be0404e83f273144cd5b9960eed01''"
  let ?code = "''(define-public (f) (ok 1))''"
  let ?ca = "''SPBMRFRPPGCDE3F384WCJPK8PQJGZ8K9QKK7F59X''"
  obtain t1 where t1: "makeSTXTokenTransfer ?e ?r 12345 ?k ?o = (Inr t1, [])"
    by (simp add: makeSTXTokenTransfer_def alloc_def Object_assign_def assignProperties_def
        feeMissing_def signAndReturn_def Let_def createTokenTransferPayload_def)
  obtain t2 where t2: "makeSTXTokenTransfer ?e ?r 12345 ?k None
                         = (Inr t2, [''http://node/v2/fees/transfer''])"
    by (simp add: makeSTXTokenTransfer_def alloc_def Object_assign_def assignProperties_def
        feeMissing_def signAndReturn_def Let_def estimateTransfer_def fetchFee_def
        orDefault_def DEFAULT_FEE_ESTIMATE_API_URL_def newStacksTransaction_def
        createTokenTransferPayload_def)
  obtain t3 where t3: "makeSmartContractDeploy ?e ''contract_name'' ?code ?k ?o = (Inr t3, [])"
    by (simp add: makeSmartContractDeploy_def alloc_def Object_assign_def assignProperties_def
        feeMissing_def signAndReturn_def Let_def createSmartContractPayload_def)
  obtain t4 where t4: "makeContractCall ?e ?ca ''contract_name'' ''contract_function''
                         [BufferCV [102, 111, 111]] ?k ?o = (Inr t4, [])"
    by (simp add: makeContractCall_def alloc_def Object_assign_def assignProperties_def
        feeMissing_def signAndReturn_def Let_def createContractCallPayload_def)
  from builders_anchorMode [where e = ?e and options = ?o and tx = t1 and urls = "[]"
         and recipient = ?r and amount = 12345 and senderKey = ?k] t1
  have a1: "tx_anchorMode t1 = OffChainOnly" by simp
  from builders_anchorMode [where e = ?e and options = None and tx = t2
         and urls = "[''http://node/v2/fees/transfer'']"
         and recipient = ?r and amount = 12345 and senderKey = ?k] t2
  have a2: "tx_anchorMode t2 = Any" by simp
  from builders_anchorMode [where e = ?e and options = ?o and tx = t3 and urls = "[]"
         and cn = "''contract_name''" and codeBody = ?code and senderKey = ?k] t3
  have a3: "tx_anchorMode t3 = OffChainOnly" by simp
  from builders_anchorMode [where e = ?e and options = ?o and tx = t4 and urls = "[]"
         and ca = ?ca and cn = "''contract_name''" and fn = "''contract_function''"
         and fa = "[BufferCV [102, 111, 111]]" and senderKey = ?k] t4
  have a4: "tx_anchorMode t4 = OffChainOnly" by simp
  show ?thesis
    unfolding t1 t2 t3 t4 using a1 a2 a3 a4 by simp
qed

text \<open>
  C9 as stated fails: with a fee and the anchor mode \<open>OnChainOnly\<close> in the options,
  \<open>makeSTXTokenTransfer\<close> returns a transaction whose anchor mode is \<open>OnChainOnly\<close>, not
  the default \<open>Any\<close>. \<^verbatim>\<open>Object.assign\<close> has written the caller's anchor mode into the
  object \<^verbatim>\<open>defaultOptions\<close> refers to before \<^verbatim>\<open>defaultOptions.anchorMode\<close> is read.
\<close>

theorem makeSTXTokenTransfer_anchorMode_counterexample:
  "(case makeSTXTokenTransfer
     \<lparr>DEFAULT_CORE_NODE_API_URL = ''http://node'', DEFAULT_TRANSACTION_VERSION = Mainnet,
      DEFAULT_CHAIN_ID = 1, fetchPrivate = (\<lambda>url. Inr ''1''), BigNum = (\<lambda>s. 1),
      byteLength = (\<lambda>t. 180), rejectTokenTransfer = (\<lambda>r a m. None),
      rejectSmartContract = (\<lambda>n c. None), rejectContractCall = (\<lambda>a c f args. None),
      createStacksPrivateKey = (\<lambda>k. Inr k), getPublicKey = (\<lambda>k. Inr k),
      publicKeyToString = (\<lambda>k. k), signOrigin = (\<lambda>t k. Inr ''sig'')\<rparr>
     (Inl ''SP3FGQ8Z7JY9BWYZ5WM53E0M9NK7WHJF0691NZ159'') 12345
     ''b244296d5907de9864c0b0d51f98a13c52890be0404e83f273144cd5b9960eed01''
     (Some \<lparr>fee = Some 200, feeEstimateApiUrl = None, nonce = None, version = None,
            chainId = None, anchorMode = Some OnChainOnly, memo = None, postConditionMode = None,
            postConditions = None\<rparr>) of
      (Inr tx, urls) \<Rightarrow> tx_anchorMode tx = OnChainOnly \<and> tx_anchorMode tx \<noteq> Any
    | (Inl err, urls) \<Rightarrow> False)"
  by (simp add: makeSTXTokenTransfer_def alloc_def Object_assign_def assignProperties_def
        feeMissing_def signAndReturn_def newStacksTransaction_def
        newSingleSigSpendingCondition_def createTokenTransferPayload_def)

end
